theory Spec2Isabelle
  imports Complex_Main
begin

section \<open>Errors, document saves\<close>

text \<open>
  The model methods raise plain JavaScript \<open>Error\<close> objects that differ in their message
  only. The constructors below name the failure; the message each one stands for is:
  \<^item> \<open>NotFound m\<close>: \<open>Error('Post not found')\<close> in \<open>editPost\<close>,
    \<open>Error('Submission not found for this student')\<close> in \<open>gradeSubmission\<close>;
  \<^item> \<open>LateSubmissionRejected\<close>:
    \<open>Error('Late submissions are not allowed for this assignment')\<close>;
  \<^item> \<open>GradeOutOfRange m\<close>: \<open>Error(`Grade cannot exceed maximum marks (${m})`)\<close>, \<open>m\<close> being
    \<open>max_marks\<close> (\<open>message\<close> below gives the text without the number);
  \<^item> \<open>TypeError m\<close>: the error JavaScript raises when a value that is not a function is called;
  \<^item> \<open>StoreError m\<close>: a rejection coming from MySQL or MongoDB (connection, constraint,
    validation or version error).
\<close>

datatype error =
    NotFound string
  | LateSubmissionRejected
  | GradeOutOfRange int
  | TypeError string
  | StoreError string

fun message :: "error \<Rightarrow> string" where
  "message (NotFound m) = m"
| "message LateSubmissionRejected = ''Late submissions are not allowed for this assignment''"
| "message (GradeOutOfRange m) = ''Grade cannot exceed maximum marks''"
| "message (TypeError m) = m"
| "message (StoreError m) = m"

text \<open>
  \<open>this.save()\<close> is Mongoose's, not the repository's: it takes the in-memory document,
  talks to the document store and resolves with the document or rejects. It is a parameter
  of every model method: a function from the document and the store's state to the outcome
  and the store's new state.
\<close>

type_synonym ('d, 's) saver = "'d \<Rightarrow> 's \<Rightarrow> (error + 'd) \<times> 's"

text \<open>\<open>Array.prototype.findIndex\<close>: the first index whose element satisfies the test, or -1.\<close>

fun findIndex :: "('a \<Rightarrow> bool) \<Rightarrow> 'a list \<Rightarrow> int" where
  "findIndex P [] = -1"
| "findIndex P (x # xs) =
     (if P x then 0 else (let i = findIndex P xs in if i = -1 then -1 else i + 1))"

text \<open>
  \<open>Array.prototype.find\<close> returns the first element that satisfies the test (\<open>List.find\<close>);
  the element is an object shared with the array, so assigning to its fields changes the
  array's entry at that position. \<open>update_first P f xs\<close> is that assignment: \<open>f\<close> applied to
  the first element satisfying \<open>P\<close>, every other entry left as it is.
\<close>

fun update_first :: "('a \<Rightarrow> bool) \<Rightarrow> ('a \<Rightarrow> 'a) \<Rightarrow> 'a list \<Rightarrow> 'a list" where
  "update_first P f [] = []"
| "update_first P f (x # xs) = (if P x then f x # xs else x # update_first P f xs)"

section \<open>Discussion model (src/models/Discussion.js)\<close>

text \<open>Dates are milliseconds since the epoch; an optional field is an \<open>option\<close>.\<close>

record post =
  post_id :: int
  p_user_id :: int
  content :: string
  p_created_at :: int
  edited_at :: "int option"
  is_edited :: bool

record discussion =
  d_course_id :: int
  d_title :: string
  d_created_by :: int
  d_created_at :: int
  d_updated_at :: int
  is_pinned :: bool
  is_locked :: bool
  tags :: "string list"
  posts :: "post list"
  post_count :: int

text \<open>
  \<open>addPost\<close>: \<open>this.posts.length > 0 ? Math.max(...this.posts.map(p => p.post_id)) + 1 : 1\<close>
  is the case distinction on the list of post ids; the new post gets the schema defaults for
  \<open>edited_at\<close> (absent) and \<open>is_edited\<close> (false).
\<close>

definition addPost ::
  "(discussion, 's) saver \<Rightarrow> discussion \<Rightarrow> int \<Rightarrow> string \<Rightarrow> int \<Rightarrow> 's \<Rightarrow> (error + discussion) \<times> 's" where
  "addPost save this userId content' now s =
     (let newPostId = (case map post_id (posts this) of
                         [] \<Rightarrow> 1
                       | i # is \<Rightarrow> fold max is i + 1);
          posts' = posts this @
                     [\<lparr>post_id = newPostId, p_user_id = userId, content = content',
                       p_created_at = now, edited_at = None, is_edited = False\<rparr>]
      in save (this\<lparr>posts := posts', post_count := int (length posts'), d_updated_at := now\<rparr>) s)"

definition editPost ::
  "(discussion, 's) saver \<Rightarrow> discussion \<Rightarrow> int \<Rightarrow> string \<Rightarrow> int \<Rightarrow> 's \<Rightarrow> (error + discussion) \<times> 's" where
  "editPost save this postId newContent now s =
     (case List.find (\<lambda>p. post_id p = postId) (posts this) of
        None \<Rightarrow> (Inl (NotFound ''Post not found''), s)
      | Some _ \<Rightarrow>
          save (this\<lparr>posts := update_first (\<lambda>p. post_id p = postId)
                                  (\<lambda>p. p\<lparr>content := newContent, edited_at := Some now, is_edited := True\<rparr>)
                                  (posts this),
                      d_updated_at := now\<rparr>) s)"

section \<open>Assignment model (src/models/Assignment.js)\<close>

text \<open>The \<open>status\<close> enum \<open>['submitted', 'graded', 'late', 'resubmit']\<close>.\<close>

datatype sub_status = Submitted | Graded | Late | Resubmit

record submission =
  student_id :: int
  submitted_at :: int
  submission_type :: string
  file_path :: "string option"
  submission_link :: "string option"
  submission_text :: "string option"
  remarks :: "string option"
  grade :: "int option"
  graded_at :: "int option"
  graded_by :: "int option"
  feedback :: "string option"
  status :: sub_status

record attachment =
  filename :: string
  att_file_path :: string
  uploaded_at :: int

record assignment =
  a_course_id :: int
  assignment_title :: string
  description :: string
  instructions :: "string option"
  max_marks :: int
  due_date :: int
  a_created_at :: int
  a_created_by :: int
  a_updated_at :: int
  is_active :: bool
  allow_late_submission :: bool
  attachments :: "attachment list"
  submissions :: "submission list"
  submission_count :: int

text \<open>The argument objects of \<open>addSubmission\<close> and \<open>gradeSubmission\<close>; a missing property is \<open>None\<close>.\<close>

record submissionData =
  sd_submission_type :: "string option"
  sd_file_path :: "string option"
  sd_submission_link :: "string option"
  sd_submission_text :: "string option"
  sd_remarks :: "string option"

record gradeData =
  gd_grade :: int
  gd_feedback :: "string option"
  gd_graded_by :: "int option"

text \<open>\<open>submissionData.submission_type || 'file'\<close>: a missing or empty string gives \<open>'file'\<close>.\<close>

definition or_file :: "string option \<Rightarrow> string" where
  "or_file t = (case t of None \<Rightarrow> ''file'' | Some v \<Rightarrow> (if v = [] then ''file'' else v))"

text \<open>
  The object literal \<open>const submission = {...}\<close> of \<open>addSubmission\<close>: it has no grade
  fields, and its status is decided by \<open>isLate\<close>.
\<close>

definition new_submission :: "int \<Rightarrow> submissionData \<Rightarrow> int \<Rightarrow> bool \<Rightarrow> submission" where
  "new_submission studentId sd now isLate =
     \<lparr>student_id = studentId, submitted_at = now,
      submission_type = or_file (sd_submission_type sd),
      file_path = sd_file_path sd, submission_link = sd_submission_link sd,
      submission_text = sd_submission_text sd, remarks = sd_remarks sd,
      grade = None, graded_at = None, graded_by = None, feedback = None,
      status = (if isLate then Late else Submitted)\<rparr>"

text \<open>
  \<open>addSubmission\<close>: the late check throws before anything is assigned; a resubmission is
  written over the entry at \<open>existingIndex\<close>, a first submission is pushed and only then is
  \<open>submission_count\<close> set.
\<close>

definition addSubmission ::
  "(assignment, 's) saver \<Rightarrow> assignment \<Rightarrow> int \<Rightarrow> submissionData \<Rightarrow> int \<Rightarrow> 's
     \<Rightarrow> (error + assignment) \<times> 's" where
  "addSubmission save this studentId sd now s =
     (let existingIndex = findIndex (\<lambda>x. student_id x = studentId) (submissions this);
          isLate = now > due_date this
      in if \<not> allow_late_submission this \<and> isLate then (Inl LateSubmissionRejected, s)
         else
           let sub = new_submission studentId sd now isLate;
               this' = (if existingIndex \<noteq> -1
                        then this\<lparr>submissions := (submissions this)[nat existingIndex := sub]\<rparr>
                        else this\<lparr>submissions := submissions this @ [sub],
                                  submission_count := int (length (submissions this @ [sub]))\<rparr>)
           in save (this'\<lparr>a_updated_at := now\<rparr>) s)"

definition gradeSubmission ::
  "(assignment, 's) saver \<Rightarrow> assignment \<Rightarrow> int \<Rightarrow> gradeData \<Rightarrow> int \<Rightarrow> 's
     \<Rightarrow> (error + assignment) \<times> 's" where
  "gradeSubmission save this studentId gd now s =
     (case List.find (\<lambda>x. student_id x = studentId) (submissions this) of
        None \<Rightarrow> (Inl (NotFound ''Submission not found for this student''), s)
      | Some _ \<Rightarrow>
          if gd_grade gd > max_marks this then (Inl (GradeOutOfRange (max_marks this)), s)
          else save (this\<lparr>submissions :=
                             update_first (\<lambda>x. student_id x = studentId)
                               (\<lambda>x. x\<lparr>grade := Some (gd_grade gd), feedback := gd_feedback gd,
                                      graded_by := gd_graded_by gd, graded_at := Some now,
                                      status := Graded\<rparr>)
                               (submissions this),
                           a_updated_at := now\<rparr>) s)"

text \<open>\<open>getSubmissionByStudent\<close>.\<close>

definition getSubmissionByStudent :: "assignment \<Rightarrow> int \<Rightarrow> submission option" where
  "getSubmissionByStudent this studentId = List.find (\<lambda>x. student_id x = studentId) (submissions this)"

subsection \<open>A document store that keeps what it is given\<close>

text \<open>
  For a sequence of requests against one document the store is the stored copy itself: a
  request loads it, the method changes its copy, \<open>save\<close> replaces the stored copy. A request
  whose method throws leaves the stored copy as it was.
\<close>

definition doc_save :: "('d, 'd) saver" where
  "doc_save d s = (Inr d, d)"

record submit_op =
  op_student :: int
  op_data :: submissionData
  op_now :: int

definition submit_step :: "assignment \<Rightarrow> submit_op \<Rightarrow> assignment" where
  "submit_step stored r = snd (addSubmission doc_save stored (op_student r) (op_data r) (op_now r) stored)"

definition submit_all :: "assignment \<Rightarrow> submit_op list \<Rightarrow> assignment" where
  "submit_all stored rs = foldl submit_step stored rs"

text \<open>The invariant of the claim: one entry per student, and the counter is the length.\<close>

definition one_per_student :: "assignment \<Rightarrow> bool" where
  "one_per_student a \<longleftrightarrow> distinct (map student_id (submissions a))"

definition count_ok :: "assignment \<Rightarrow> bool" where
  "count_ok a \<longleftrightarrow> submission_count a = int (length (submissions a))"


subsection \<open>Concrete documents\<close>

text \<open>
  A thread without posts, and an assignment with \<open>max_marks = 100\<close>, due
  2025-12-15T23:59:59Z, late submissions not allowed; \<open>hw_late_ok\<close> is the same assignment
  with late submissions allowed.
\<close>

definition thread0 :: discussion where
  "thread0 = \<lparr>d_course_id = 1, d_title = ''Week 1'', d_created_by = 2, d_created_at = 0,
               d_updated_at = 0, is_pinned = False, is_locked = False, tags = [],
               posts = [], post_count = 0\<rparr>"

definition thread1 :: discussion where
  "thread1 = snd (addPost doc_save thread0 4 ''hello'' 10 thread0)"

definition thread2 :: discussion where
  "thread2 = snd (addPost doc_save thread1 2 ''world'' 20 thread1)"

definition hw0 :: assignment where
  "hw0 = \<lparr>a_course_id = 1, assignment_title = ''Homework 1'', description = ''Lists'',
           instructions = None, max_marks = 100, due_date = 1765843199000, a_created_at = 0,
           a_created_by = 2, a_updated_at = 0, is_active = True, allow_late_submission = False,
           attachments = [], submissions = [], submission_count = 0\<rparr>"

definition hw_late_ok :: assignment where
  "hw_late_ok = hw0\<lparr>allow_late_submission := True\<rparr>"

definition text_answer :: "string \<Rightarrow> submissionData" where
  "text_answer t = \<lparr>sd_submission_type = Some ''text'', sd_file_path = None,
                     sd_submission_link = None, sd_submission_text = Some t, sd_remarks = None\<rparr>"

text \<open>
  Student 4 submits on 2025-12-14 at 10:00 and again at 15:00, student 5 submits on
  2025-12-16 at 00:00, after the due date.
\<close>

definition scenario :: "submit_op list" where
  "scenario = [\<lparr>op_student = 4, op_data = text_answer ''first'', op_now = 1765706400000\<rparr>,
               \<lparr>op_student = 4, op_data = text_answer ''second'', op_now = 1765724400000\<rparr>,
               \<lparr>op_student = 5, op_data = text_answer ''late'', op_now = 1765843200000\<rparr>]"

definition hw1 :: assignment where
  "hw1 = submit_all hw0 (take 1 scenario)"

definition grade_of :: "int \<Rightarrow> gradeData" where
  "grade_of g = \<lparr>gd_grade = g, gd_feedback = Some ''ok'', gd_graded_by = Some 2\<rparr>"

section \<open>Relational store (database/mysql/schema.sql, src/config/mysql.js)\<close>

text \<open>
  The tables of \<open>schema.sql\<close>, a row being a record of the columns the queries below read.
  \<open>DATETIME\<close> values are milliseconds since the epoch. \<open>auto_increment\<close> is the next
  \<open>enrollment_id\<close>; \<open>reachable\<close> says whether the pool can reach the server.
\<close>

datatype role = Student | Instructor | Admin

datatype enrollment_status = Active | Dropped | Completed

fun status_text :: "enrollment_status \<Rightarrow> string" where
  "status_text Active = ''active''"
| "status_text Dropped = ''dropped''"
| "status_text Completed = ''completed''"

record user_row =
  u_user_id :: int
  u_name :: string
  u_email :: string
  u_role :: role

record course_row =
  c_course_id :: int
  c_course_code :: string
  c_course_name :: string
  c_instructor_id :: int

record enrollment_row =
  e_enrollment_id :: int
  e_student_id :: int
  e_course_id :: int
  e_enrolled_at :: int
  e_status :: enrollment_status

record quiz_row =
  q_quiz_id :: int
  q_course_id :: int
  q_title :: string
  q_max_marks :: int

record quiz_submission_row =
  qs_submission_id :: int
  qs_quiz_id :: int
  qs_student_id :: int
  qs_marks_obtained :: int

record mysql =
  users :: "user_row list"
  courses :: "course_row list"
  enrollments :: "enrollment_row list"
  quizzes :: "quiz_row list"
  quiz_submissions :: "quiz_submission_row list"
  auto_increment :: int
  reachable :: bool

text \<open>
  The state a request handler works on: the relational store, the activity-log collection
  (its type is the document store's business) and what was written with \<open>console.error\<close>.
\<close>

record 'l world =
  db :: mysql
  logs :: 'l
  console :: "string list"

text \<open>
  \<open>executeQuery(sql, params)\<close>: the statement is given by its meaning on the database; a
  failure is logged and thrown again.
\<close>

definition executeQuery ::
  "(mysql \<Rightarrow> (error + 'r) \<times> mysql) \<Rightarrow> 'l world \<Rightarrow> (error + 'r) \<times> 'l world" where
  "executeQuery stmt w =
     (case (if reachable (db w) then stmt (db w)
            else (Inl (StoreError ''connect ECONNREFUSED''), db w)) of
        (Inl e, db') \<Rightarrow>
          (Inl e, w\<lparr>db := db', console := console w @ [''MySQL Query Error: '' @ message e]\<rparr>)
      | (Inr rows, db') \<Rightarrow> (Inr rows, w\<lparr>db := db'\<rparr>))"

text \<open>\<open>SELECT course_id, course_name FROM courses WHERE course_id = ?\<close>\<close>

definition select_course :: "int \<Rightarrow> mysql \<Rightarrow> (error + course_row list) \<times> mysql" where
  "select_course courseId d = (Inr (filter (\<lambda>c. c_course_id c = courseId) (courses d)), d)"

text \<open>\<open>SELECT enrollment_id, status FROM enrollments WHERE student_id = ? AND course_id = ?\<close>\<close>

definition select_enrollment :: "int \<Rightarrow> int \<Rightarrow> mysql \<Rightarrow> (error + enrollment_row list) \<times> mysql" where
  "select_enrollment studentId courseId d =
     (Inr (filter (\<lambda>e. e_student_id e = studentId \<and> e_course_id e = courseId) (enrollments d)), d)"

text \<open>
  \<open>INSERT INTO enrollments (student_id, course_id, status) VALUES (?, ?, ?)\<close>, with the
  table's constraints: both foreign keys and \<open>UNIQUE KEY unique_enrollment (student_id,
  course_id)\<close>. \<open>enrolled_at\<close> defaults to the current time. The result is \<open>insertId\<close>.
\<close>

definition insert_enrollment ::
  "int \<Rightarrow> int \<Rightarrow> enrollment_status \<Rightarrow> int \<Rightarrow> mysql \<Rightarrow> (error + int) \<times> mysql" where
  "insert_enrollment studentId courseId st now d =
     (if studentId \<notin> set (map u_user_id (users d)) \<or> courseId \<notin> set (map c_course_id (courses d))
      then (Inl (StoreError ''a foreign key constraint fails''), d)
      else if (studentId, courseId) \<in> set (map (\<lambda>e. (e_student_id e, e_course_id e)) (enrollments d))
      then (Inl (StoreError ''Duplicate entry for key unique_enrollment''), d)
      else (Inr (auto_increment d),
            d\<lparr>enrollments := enrollments d @
                 [\<lparr>e_enrollment_id = auto_increment d, e_student_id = studentId,
                   e_course_id = courseId, e_enrolled_at = now, e_status = st\<rparr>],
              auto_increment := auto_increment d + 1\<rparr>))"

section \<open>HTTP responses\<close>

text \<open>
  The JSON envelope \<open>{success, message, data | error}\<close> together with the status code set
  by \<open>res.status\<close> (200 when the handler sets none).
\<close>

record 'p response =
  http_status :: nat
  success :: bool
  res_message :: string
  res_error :: "string option"
  res_data :: "'p option"

definition failure :: "nat \<Rightarrow> string \<Rightarrow> 'p response" where
  "failure code m = \<lparr>http_status = code, success = False, res_message = m,
                      res_error = None, res_data = None\<rparr>"

definition failure500 :: "string \<Rightarrow> error \<Rightarrow> 'p response" where
  "failure500 m e = \<lparr>http_status = 500, success = False, res_message = m,
                      res_error = Some (message e), res_data = None\<rparr>"

definition succeed :: "nat \<Rightarrow> string \<Rightarrow> 'p \<Rightarrow> 'p response" where
  "succeed code m payload = \<lparr>http_status = code, success = True, res_message = m,
                              res_error = None, res_data = Some payload\<rparr>"

text \<open>The verified user that the authentication middleware puts into \<open>req.user\<close>.\<close>

record user_ctx =
  user_id :: int
  name :: string
  user_role :: role

text \<open>
  \<open>parseInt(string)\<close> on decimal input: leading white space, an optional sign, then the
  longest run of digits; \<open>None\<close> is \<open>NaN\<close>. (The \<open>0x\<close> prefix is not modelled.)
\<close>

definition digit :: "char \<Rightarrow> nat option" where
  "digit c = (let n = (of_char c :: nat) in if 48 \<le> n \<and> n \<le> 57 then Some (n - 48) else None)"

fun digits :: "string \<Rightarrow> nat list" where
  "digits [] = []"
| "digits (c # cs) = (case digit c of None \<Rightarrow> [] | Some d \<Rightarrow> d # digits cs)"

definition parseInt :: "string \<Rightarrow> int option" where
  "parseInt str =
     (let t = dropWhile (\<lambda>c. c \<in> set [CHR '' '', CHR 0x09, CHR 0x0A, CHR 0x0D]) str;
          neg = (case t of [] \<Rightarrow> False | c # _ \<Rightarrow> c = CHR ''-'');
          r = (case t of [] \<Rightarrow> [] | c # cs \<Rightarrow> if c = CHR ''-'' \<or> c = CHR ''+'' then cs else t);
          ds = digits r
      in if ds = [] then None
         else Some ((if neg then -1 else 1) * int (foldl (\<lambda>a d. 10 * a + d) 0 ds)))"

text \<open>
  JavaScript's truth test of an optional string: \<open>truthy x\<close> is the string when it is there
  and not empty, \<open>None\<close> when \<open>!x\<close> holds.
\<close>

definition truthy :: "string option \<Rightarrow> string option" where
  "truthy x = (case x of None \<Rightarrow> None | Some v \<Rightarrow> if v = [] then None else Some v)"

section \<open>Activity log (src/models/ActivityLog.js, src/middleware/activityLogger.js)\<close>

text \<open>\<open>resource_id\<close> is \<open>Mixed\<close>: a MySQL id or the text of a route parameter.\<close>

datatype mixed = Num int | Str string

type_synonym object = "(string \<times> string) list"

record activity_log =
  al_user_id :: int
  al_action :: string
  al_timestamp :: int
  al_course_id :: "int option"
  al_resource_type :: "string option"
  al_resource_id :: "mixed option"
  al_metadata :: object
  al_success :: bool
  al_error_message :: "string option"

record logData =
  ld_user_id :: int
  ld_action :: string
  ld_success :: "bool option"
  ld_course_id :: "int option"
  ld_resource_type :: "string option"
  ld_resource_id :: "mixed option"
  ld_error_message :: "string option"
  ld_metadata :: "object option"

text \<open>
  The static \<open>ActivityLog.logActivity\<close>: an \<open>async\<close> function, so whatever goes wrong in it
  is a rejection. It builds the record and saves it.
\<close>

definition ActivityLog_logActivity ::
  "(activity_log, 'l) saver \<Rightarrow> logData \<Rightarrow> int \<Rightarrow> 'l \<Rightarrow> (error + activity_log) \<times> 'l" where
  "ActivityLog_logActivity save ld now l =
     save \<lparr>al_user_id = ld_user_id ld, al_action = ld_action ld, al_timestamp = now,
           al_course_id = ld_course_id ld, al_resource_type = ld_resource_type ld,
           al_resource_id = ld_resource_id ld,
           al_metadata = (case ld_metadata ld of None \<Rightarrow> [] | Some m \<Rightarrow> m),
           al_success = (case ld_success ld of None \<Rightarrow> True | Some b \<Rightarrow> b),
           al_error_message = ld_error_message ld\<rparr> l"

text \<open>The \<open>options\<close> argument of \<open>logManualActivity\<close>.\<close>

record manual_options =
  mo_success :: "bool option"
  mo_course_id :: "int option"
  mo_resource_type :: "string option"
  mo_resource_id :: "mixed option"
  mo_error_message :: "string option"
  mo_metadata :: "object option"

text \<open>
  \<open>logManualActivity\<close>: the whole body is inside \<open>try\<close>; the handler of \<open>catch\<close> writes to
  the console and the function returns normally. The result type has a place for an error
  so that "it never throws" is a statement, not a typing.
\<close>

definition logManualActivity ::
  "(activity_log, 'l) saver \<Rightarrow> int \<Rightarrow> string \<Rightarrow> manual_options \<Rightarrow> int \<Rightarrow> 'l world
     \<Rightarrow> (error + unit) \<times> 'l world" where
  "logManualActivity save userId action opts now w =
     (let ld = \<lparr>ld_user_id = userId, ld_action = action,
                 ld_success = Some (case mo_success opts of None \<Rightarrow> True | Some b \<Rightarrow> b),
                 ld_course_id = mo_course_id opts, ld_resource_type = mo_resource_type opts,
                 ld_resource_id = mo_resource_id opts, ld_error_message = mo_error_message opts,
                 ld_metadata = Some (case mo_metadata opts of None \<Rightarrow> [] | Some m \<Rightarrow> m)\<rparr>
      in case ActivityLog_logActivity save ld now (logs w) of
           (Inr _, l') \<Rightarrow> (Inr (), w\<lparr>logs := l'\<rparr>)
         | (Inl e, l') \<Rightarrow>
             (Inr (), w\<lparr>logs := l',
                        console := console w @ [''Manual activity logging error: '' @ message e]\<rparr>))"

text \<open>
  What the middleware reads of a request: \<open>req.user\<close>, \<open>req.params.courseId\<close>,
  \<open>req.params.id\<close>, \<open>req.body\<close> (absent when no body was parsed) with its \<open>course_id\<close>, and
  the object \<open>extractMetadata(req)\<close> builds from the headers.
\<close>

record request =
  rq_user :: "user_ctx option"
  rq_courseId :: "string option"
  rq_id :: "string option"
  rq_body :: "string option option"
  rq_metadata :: object

text \<open>
  \<open>options.additionalData\<close>: a value, or a function of the request and the response data,
  which may throw.
\<close>

datatype 'p additional = Value string | Function "request \<Rightarrow> 'p response \<Rightarrow> error + string"

record 'p log_options =
  lo_resourceType :: "string option"
  lo_additionalData :: "'p additional option"

text \<open>
  The \<open>try\<close> block of the wrapper that \<open>logActivity(action, options)\<close> installs as \<open>res.json\<close>,
  up to the call of \<open>ActivityLog.logActivity\<close>: the log data, or the error thrown on the way
  (\<open>req.body.course_id\<close> with no body, or \<open>options.additionalData\<close> throwing). \<open>None\<close>: the
  request has no authenticated user and nothing is logged.
\<close>

definition build_logData ::
  "string \<Rightarrow> 'p log_options \<Rightarrow> request \<Rightarrow> 'p response \<Rightarrow> (error + logData) option" where
  "build_logData action opts req resp =
     (case rq_user req of
        None \<Rightarrow> None
      | Some u \<Rightarrow>
          if user_id u = 0 then None
          else Some
            (case (case truthy (rq_courseId req) of
                     Some c \<Rightarrow> Inr (parseInt c)
                   | None \<Rightarrow>
                       (case rq_body req of
                          None \<Rightarrow> Inl (TypeError ''Cannot read properties of undefined'')
                        | Some b \<Rightarrow> Inr (case truthy b of None \<Rightarrow> None | Some c \<Rightarrow> parseInt c))) of
               Inl e \<Rightarrow> Inl e
             | Inr cid \<Rightarrow>
                 (case (case lo_additionalData opts of
                          None \<Rightarrow> Inr (rq_metadata req)
                        | Some (Value v) \<Rightarrow> Inr (rq_metadata req @ [(''additional_data'', v)])
                        | Some (Function f) \<Rightarrow>
                            (case f req resp of
                               Inl e \<Rightarrow> Inl e
                             | Inr v \<Rightarrow> Inr (rq_metadata req @ [(''additional_data'', v)]))) of
                    Inl e \<Rightarrow> Inl e
                  | Inr md \<Rightarrow>
                      Inr \<lparr>ld_user_id = user_id u, ld_action = action,
                           ld_success = Some (http_status resp < 400), ld_course_id = cid,
                           ld_resource_type = lo_resourceType opts,
                           ld_resource_id = map_option Str (truthy (rq_id req)),
                           ld_error_message = None, ld_metadata = Some md\<rparr>)))"

text \<open>
  The wrapper itself: \<open>resp\<close> is \<open>res.statusCode\<close> and the \<open>data\<close> argument, the envelope
  the handler built. A rejection of the log write goes to \<open>.catch\<close>, an exception of the \<open>try\<close> block
  to \<open>catch\<close>; both write to the console. Then \<open>originalJson(data)\<close> sends the response. The
  log write is started and not awaited; here it has happened when the function returns.
\<close>

definition logActivity ::
  "(activity_log, 'l) saver \<Rightarrow> string \<Rightarrow> 'p log_options \<Rightarrow> request \<Rightarrow> 'p response \<Rightarrow> int
     \<Rightarrow> 'l world \<Rightarrow> (error + 'p response) \<times> 'l world" where
  "logActivity save action opts req resp now w =
     (let w' = (case build_logData action opts req resp of
                  None \<Rightarrow> w
                | Some (Inl e) \<Rightarrow>
                    w\<lparr>console := console w @ [''Activity logger error: '' @ message e]\<rparr>
                | Some (Inr ld) \<Rightarrow>
                    (case ActivityLog_logActivity save ld now (logs w) of
                       (Inr _, l') \<Rightarrow> w\<lparr>logs := l'\<rparr>
                     | (Inl e, l') \<Rightarrow>
                         w\<lparr>logs := l',
                           console := console w @ [''Activity logging error: '' @ message e]\<rparr>))
      in (Inr resp, w'))"

subsection \<open>Two activity-log collections\<close>

text \<open>
  A collection that validates the \<open>action\<close> against the schema's enum, as Mongoose does on
  save, and one that cannot be reached at all.
\<close>

definition action_enum :: "string list" where
  "action_enum = [''LOGIN'', ''LOGOUT'', ''REGISTER'', ''VIEW_COURSE'', ''ENROLL_COURSE'',
     ''DROP_COURSE'', ''CREATE_COURSE'', ''UPDATE_COURSE'', ''DELETE_COURSE'', ''VIEW_QUIZ'',
     ''SUBMIT_QUIZ'', ''CREATE_QUIZ'', ''GRADE_QUIZ'', ''VIEW_ASSIGNMENT'', ''SUBMIT_ASSIGNMENT'',
     ''CREATE_ASSIGNMENT'', ''GRADE_ASSIGNMENT'', ''CREATE_DISCUSSION'', ''POST_COMMENT'',
     ''EDIT_COMMENT'', ''DELETE_COMMENT'', ''VIEW_DASHBOARD'', ''UPDATE_PROFILE'',
     ''CHANGE_PASSWORD'']"

definition validating_save :: "(activity_log, activity_log list) saver" where
  "validating_save r l =
     (if al_action r \<in> set action_enum then (Inr r, l @ [r])
      else (Inl (StoreError ''ActivityLog validation failed: action''), l))"

definition unreachable_save :: "(activity_log, activity_log list) saver" where
  "unreachable_save r l = (Inl (StoreError ''connect ECONNREFUSED''), l)"

section \<open>Controllers\<close>

subsection \<open>createDiscussion (discussionController.js), submitAssignment (assignmentController.js)\<close>

text \<open>
  The object the controller passes to \<open>Discussion.createDiscussion\<close>, and the request it is
  built from (\<open>req.params.courseId\<close>, \<open>req.body\<close>, \<open>req.user\<close>).
\<close>

record discussion_input =
  di_course_id :: "int option"
  di_author_id :: int
  di_author_name :: string
  di_title :: string
  di_content :: string
  di_tags :: "string list"

record createDiscussion_request =
  cd_courseId :: string
  cd_title :: "string option"
  cd_content :: "string option"
  cd_tags :: "string list option"
  cd_user :: user_ctx

text \<open>
  A static method of a model, as the controller sees it: the property of the model object,
  \<open>None\<close> when the model defines no static of that name, so that calling it raises a
  TypeError. A static that exists takes its argument and the collection.
\<close>

type_synonym ('i, 'd, 's) static = "('i \<Rightarrow> 's \<Rightarrow> (error + 'd) \<times> 's) option"

text \<open>
  \<open>src/models/Discussion.js\<close> defines the methods \<open>addPost\<close> and \<open>editPost\<close> and the static
  \<open>findByCourse\<close>; it defines no \<open>createDiscussion\<close>. \<open>Assignment.js\<close> defines the methods
  \<open>addSubmission\<close>, \<open>gradeSubmission\<close>, \<open>getSubmissionByStudent\<close>, \<open>getStatistics\<close> and the
  statics \<open>findByCourse\<close>, \<open>findByIdWithSubmissions\<close>, \<open>findUpcoming\<close>; it defines no
  \<open>submitAssignment\<close>.
\<close>

definition Discussion_createDiscussion :: "(discussion_input, discussion, 's) static" where
  "Discussion_createDiscussion = None"

definition createDiscussion ::
  "(discussion_input, discussion, 's) static \<Rightarrow> createDiscussion_request \<Rightarrow> 's
     \<Rightarrow> discussion response \<times> 's" where
  "createDiscussion static req s =
     (case (truthy (cd_title req), truthy (cd_content req)) of
        (Some title, Some content') \<Rightarrow>
          (case static of
             None \<Rightarrow>
               (failure500 ''Failed to create discussion''
                  (TypeError ''Discussion.createDiscussion is not a function''), s)
           | Some create \<Rightarrow>
               (case create \<lparr>di_course_id = parseInt (cd_courseId req),
                             di_author_id = user_id (cd_user req),
                             di_author_name = name (cd_user req),
                             di_title = title, di_content = content',
                             di_tags = (case cd_tags req of None \<Rightarrow> [] | Some t \<Rightarrow> t)\<rparr> s of
                  (Inl e, s') \<Rightarrow> (failure500 ''Failed to create discussion'' e, s')
                | (Inr d, s') \<Rightarrow> (succeed 201 ''Discussion created successfully'' d, s')))
      | _ \<Rightarrow> (failure 400 ''Title and content are required'', s))"

record assignment_input =
  ai_course_id :: "int option"
  ai_student_id :: int
  ai_student_name :: string
  ai_title :: string
  ai_description :: "string option"
  ai_submission_type :: string
  ai_submission_content :: string

record submitAssignment_request =
  sa_courseId :: string
  sa_title :: "string option"
  sa_description :: "string option"
  sa_submission_type :: "string option"
  sa_submission_content :: "string option"
  sa_user :: user_ctx

definition Assignment_submitAssignment :: "(assignment_input, assignment, 's) static" where
  "Assignment_submitAssignment = None"

definition submitAssignment ::
  "(assignment_input, assignment, 's) static \<Rightarrow> submitAssignment_request \<Rightarrow> 's
     \<Rightarrow> assignment response \<times> 's" where
  "submitAssignment static req s =
     (case (truthy (sa_title req), truthy (sa_submission_type req),
            truthy (sa_submission_content req)) of
        (Some title, Some type', Some content') \<Rightarrow>
          (case static of
             None \<Rightarrow>
               (failure500 ''Failed to submit assignment''
                  (TypeError ''Assignment.submitAssignment is not a function''), s)
           | Some submit \<Rightarrow>
               (case submit \<lparr>ai_course_id = parseInt (sa_courseId req),
                             ai_student_id = user_id (sa_user req),
                             ai_student_name = name (sa_user req),
                             ai_title = title, ai_description = sa_description req,
                             ai_submission_type = type',
                             ai_submission_content = content'\<rparr> s of
                  (Inl e, s') \<Rightarrow> (failure500 ''Failed to submit assignment'' e, s')
                | (Inr a, s') \<Rightarrow> (succeed 201 ''Assignment submitted successfully'' a, s')))
      | _ \<Rightarrow> (failure 400 ''Title, submission type, and content are required'', s))"

subsection \<open>enrollInCourse (courseController.js)\<close>

record enroll_data =
  en_enrollment_id :: int
  en_course_id :: int
  en_course_name :: string

text \<open>
  \<open>studentId\<close> is \<open>req.user.user_id\<close>; \<open>courseId\<close> is the number MySQL reads the route
  parameter \<open>req.params.id\<close> as. \<open>courses.length === 0\<close> and \<open>existing.length > 0\<close> are the
  cases of the row lists, \<open>courses[0]\<close> and \<open>existing[0]\<close> their first rows. Every \<open>await\<close>
  that rejects ends in the \<open>catch\<close> of the handler, which logs and answers 500.
\<close>

definition enrollInCourse ::
  "(activity_log, 'l) saver \<Rightarrow> int \<Rightarrow> int \<Rightarrow> int \<Rightarrow> 'l world \<Rightarrow> enroll_data response \<times> 'l world" where
  "enrollInCourse save studentId courseId now w =
     (let caught = (\<lambda>e w'. (failure500 ''Failed to enroll in course'' e,
                             w'\<lparr>console := console w' @ [''Enroll error: '' @ message e]\<rparr>))
      in case executeQuery (select_course courseId) w of
           (Inl e, w1) \<Rightarrow> caught e w1
         | (Inr [], w1) \<Rightarrow> (failure 404 ''Course not found'', w1)
         | (Inr (course # _), w1) \<Rightarrow>
             (case executeQuery (select_enrollment studentId courseId) w1 of
                (Inl e, w2) \<Rightarrow> caught e w2
              | (Inr (existing # _), w2) \<Rightarrow>
                  (failure 409 (''Already '' @ status_text (e_status existing)
                                  @ '' in this course''), w2)
              | (Inr [], w2) \<Rightarrow>
                  (case executeQuery (insert_enrollment studentId courseId Active now) w2 of
                     (Inl e, w3) \<Rightarrow> caught e w3
                   | (Inr insertId, w3) \<Rightarrow>
                       (case logManualActivity save studentId ''ENROLL_COURSE''
                               \<lparr>mo_success = None, mo_course_id = Some courseId,
                                 mo_resource_type = Some ''enrollment'',
                                 mo_resource_id = Some (Num insertId),
                                 mo_error_message = None, mo_metadata = None\<rparr> now w3 of
                          (Inl e, w4) \<Rightarrow> caught e w4
                        | (Inr _, w4) \<Rightarrow>
                            (succeed 201 (''Successfully enrolled in '' @ c_course_name course)
                               \<lparr>en_enrollment_id = insertId, en_course_id = courseId,
                                 en_course_name = c_course_name course\<rparr>, w4)))))"

text \<open>
  What \<open>enrollInCourse\<close> answers and what it leaves in the relational store, written as a
  function of the relational store alone; the properties below relate the handler to it.
\<close>

definition enroll_outcome :: "int \<Rightarrow> int \<Rightarrow> int \<Rightarrow> mysql \<Rightarrow> enroll_data response \<times> mysql" where
  "enroll_outcome studentId courseId now d =
     (if \<not> reachable d then (failure500 ''Failed to enroll in course'' (StoreError ''connect ECONNREFUSED''), d)
      else case filter (\<lambda>c. c_course_id c = courseId) (courses d) of
             [] \<Rightarrow> (failure 404 ''Course not found'', d)
           | course # _ \<Rightarrow>
               (case filter (\<lambda>e. e_student_id e = studentId \<and> e_course_id e = courseId) (enrollments d) of
                  existing # _ \<Rightarrow>
                    (failure 409 (''Already '' @ status_text (e_status existing) @ '' in this course''), d)
                | [] \<Rightarrow>
                    (case insert_enrollment studentId courseId Active now d of
                       (Inl e, d') \<Rightarrow> (failure500 ''Failed to enroll in course'' e, d')
                     | (Inr insertId, d') \<Rightarrow>
                         (succeed 201 (''Successfully enrolled in '' @ c_course_name course)
                            \<lparr>en_enrollment_id = insertId, en_course_id = courseId,
                              en_course_name = c_course_name course\<rparr>, d'))))"

text \<open>
  The route \<open>POST /:id/enroll\<close> runs the handler behind the middleware
  \<open>logActivity('ENROLL_COURSE', {resourceType: 'enrollment'})\<close>: the handler's \<open>res.json\<close> is
  the wrapper.
\<close>

definition enroll_route ::
  "(activity_log, 'l) saver \<Rightarrow> request \<Rightarrow> int \<Rightarrow> int \<Rightarrow> int \<Rightarrow> 'l world
     \<Rightarrow> (error + enroll_data response) \<times> 'l world" where
  "enroll_route save req studentId courseId now w =
     (case enrollInCourse save studentId courseId now w of
        (resp, w') \<Rightarrow>
          logActivity save ''ENROLL_COURSE''
            \<lparr>lo_resourceType = Some ''enrollment'', lo_additionalData = None\<rparr> req resp now w')"

subsection \<open>getPlatformStats (activityController.js)\<close>

text \<open>
  What the two stores answer to the nine reads of the handler: the rows of each of the five
  SQL statements (for a \<open>COUNT(*)\<close> statement the rows are the counts), the three
  \<open>countDocuments\<close> and the aggregation. Each may be a rejection.
\<close>

record stats_env =
  userStats :: "error + (string \<times> nat) list"
  courseStats :: "error + nat list"
  enrollmentStats :: "error + nat list"
  quizStats :: "error + nat list"
  submissionStats :: "error + nat list"
  totalActivities :: "error + nat"
  totalDiscussions :: "error + nat"
  totalAssignments :: "error + nat"
  activityTrend :: "error + (string \<times> nat) list"

record mysql_stats =
  ms_users :: "(string \<times> nat) list"
  ms_courses :: nat
  ms_enrollments :: nat
  ms_quizzes :: nat
  ms_quiz_submissions :: nat

record mongodb_stats =
  mg_activity_logs :: nat
  mg_discussions :: nat
  mg_assignments :: nat
  mg_activity_trend :: "(string \<times> nat) list"

record platform_stats =
  mysql_half :: "mysql_stats option"
  mongodb_half :: "mongodb_stats option"

text \<open>The statements of a \<open>try\<close> block in sequence: the first failure ends the block.\<close>

definition and_then :: "error + 'a \<Rightarrow> ('a \<Rightarrow> error + 'b) \<Rightarrow> error + 'b" where
  "and_then r f = (case r of Inl e \<Rightarrow> Inl e | Inr v \<Rightarrow> f v)"

text \<open>\<open>rows[0].column\<close>: a TypeError when there is no first row.\<close>

definition first_row :: "nat list \<Rightarrow> error + nat" where
  "first_row rows = (case rows of [] \<Rightarrow> Inl (TypeError ''Cannot read properties of undefined'')
                     | r # _ \<Rightarrow> Inr r)"

text \<open>
  \<open>has_query\<close>: whether the object bound to \<open>mysqlPool\<close> has a \<open>query\<close> function.
  \<open>mysqlPool\<close> is \<open>require('../config/mysql')\<close>, whose exports are \<open>pool\<close>, \<open>testConnection\<close>,
  \<open>executeQuery\<close>, \<open>executeTransaction\<close> and \<open>closeConnection\<close>: it has none.
\<close>

definition mysql_module_has_query :: bool where
  "mysql_module_has_query = False"

definition platform_report :: "bool \<Rightarrow> stats_env \<Rightarrow> error + platform_stats" where
  "platform_report has_query env =
     and_then (if has_query then Inr () else Inl (TypeError ''mysqlPool.query is not a function''))
       (\<lambda>_. and_then (userStats env)
       (\<lambda>us. and_then (courseStats env)
       (\<lambda>cs. and_then (enrollmentStats env)
       (\<lambda>es. and_then (quizStats env)
       (\<lambda>qs. and_then (submissionStats env)
       (\<lambda>ss. and_then (totalActivities env)
       (\<lambda>ta. and_then (totalDiscussions env)
       (\<lambda>td. and_then (totalAssignments env)
       (\<lambda>tas. and_then (activityTrend env)
       (\<lambda>tr. and_then (first_row cs)
       (\<lambda>c. and_then (first_row es)
       (\<lambda>e. and_then (first_row qs)
       (\<lambda>q. and_then (first_row ss)
       (\<lambda>sb. Inr \<lparr>mysql_half = Some \<lparr>ms_users = us, ms_courses = c, ms_enrollments = e,
                                      ms_quizzes = q, ms_quiz_submissions = sb\<rparr>,
                   mongodb_half = Some \<lparr>mg_activity_logs = ta, mg_discussions = td,
                                        mg_assignments = tas, mg_activity_trend = tr\<rparr>\<rparr>
       ))))))))))))))"

definition getPlatformStats :: "bool \<Rightarrow> stats_env \<Rightarrow> platform_stats response" where
  "getPlatformStats has_query env =
     (case platform_report has_query env of
        Inl e \<Rightarrow> failure500 ''Failed to retrieve platform statistics'' e
      | Inr report \<Rightarrow> succeed 200 ''Platform statistics retrieved successfully'' report)"

section \<open>Saves under concurrent requests\<close>


text \<open>
  The document store as Mongoose's \<open>save\<close> uses it. The stored document has a version key
  \<open>__v\<close>. A save of a document that was loaded earlier does not send the document but what
  was changed on it since the load:
  \<^item> elements pushed to an array go as a \<open>$push\<close>, which appends them to the stored array,
    increments \<open>__v\<close> and puts no condition on \<open>__v\<close>;
  \<^item> an element assigned at a position goes as a \<open>$set\<close> of that position, on the condition
    that \<open>__v\<close> is still the version that was read; when it is not, no document matches and
    the save rejects with a VersionError; \<open>__v\<close> stays as it is;
  \<^item> a changed field outside the arrays goes as a \<open>$set\<close> of the field.
  The save resolves with the document it was called on.
\<close>

record 'd versioned =
  stored :: 'd
  version :: nat

text \<open>The positions at which the document differs from the loaded copy.\<close>

definition changed_at :: "'a list \<Rightarrow> 'a list \<Rightarrow> nat list" where
  "changed_at loaded cur =
     filter (\<lambda>i. cur ! i \<noteq> loaded ! i) [0..<min (length loaded) (length cur)]"

text \<open>The \<open>$set\<close> of these positions, on the stored array.\<close>

definition set_positions :: "nat list \<Rightarrow> 'a list \<Rightarrow> 'a list \<Rightarrow> 'a list" where
  "set_positions is cur target = foldl (\<lambda>xs i. xs[i := cur ! i]) target is"

text \<open>A field outside the arrays: sent when it was changed, else the stored value stays.\<close>

definition changed :: "'a \<Rightarrow> 'a \<Rightarrow> 'a \<Rightarrow> 'a" where
  "changed loaded cur target = (if cur \<noteq> loaded then cur else target)"


definition mongoose_save_assignment ::
  "assignment \<Rightarrow> nat \<Rightarrow> (assignment, assignment versioned) saver" where
  "mongoose_save_assignment loaded read_at this st =
     (let sets = changed_at (submissions loaded) (submissions this);
          pushed = drop (length (submissions loaded)) (submissions this)
      in if sets \<noteq> [] \<and> version st \<noteq> read_at then (Inl (StoreError ''VersionError''), st)
         else (Inr this,
               \<lparr>stored = (stored st)
                   \<lparr>submissions := set_positions sets (submissions this) (submissions (stored st))
                                     @ pushed,
                    submission_count := changed (submission_count loaded) (submission_count this)
                                          (submission_count (stored st)),
                    a_updated_at := changed (a_updated_at loaded) (a_updated_at this)
                                      (a_updated_at (stored st))\<rparr>,
                version = (if pushed = [] then version st else version st + 1)\<rparr>))"




section \<open>Course summaries (database/mysql/queries.sql, courseController.js)\<close>

text \<open>
  SQL values: \<open>NULL\<close> is \<open>None\<close>. Exact-value arithmetic is rational arithmetic, rounded half
  away from zero to the scale of the result. Dividing two \<open>INT\<close> columns gives a scale of
  \<open>div_precision_increment\<close> digits (MySQL's default is 4) and \<open>NULL\<close> for a zero divisor;
  \<open>AVG\<close> and \<open>COUNT\<close> skip \<open>NULL\<close> (\<open>non_null\<close>); \<open>AVG\<close> is \<open>NULL\<close> over no value and adds
  \<open>div_precision_increment\<close> digits.
\<close>

definition round_dec :: "nat \<Rightarrow> rat \<Rightarrow> rat" where
  "round_dec n x =
     (if x < 0 then - 1 else 1) * of_int \<lfloor>\<bar>x\<bar> * 10 ^ n + 1 / 2\<rfloor> / 10 ^ n"

definition div_precision_increment :: nat where
  "div_precision_increment = 4"

definition sql_div :: "int option \<Rightarrow> int option \<Rightarrow> rat option" where
  "sql_div a b =
     (case (a, b) of
        (Some x, Some y) \<Rightarrow>
          if y = 0 then None
          else Some (round_dec div_precision_increment (of_int x / of_int y))
      | _ \<Rightarrow> None)"

fun non_null :: "'a option list \<Rightarrow> 'a list" where
  "non_null [] = []"
| "non_null (None # vs) = non_null vs"
| "non_null (Some v # vs) = v # non_null vs"

definition sql_avg :: "rat option list \<Rightarrow> rat option" where
  "sql_avg vs =
     (case non_null vs of
        [] \<Rightarrow> None
      | w # ws \<Rightarrow> Some (round_dec (2 * div_precision_increment)
                         (sum_list (w # ws) / of_nat (length (w # ws)))))"

definition sql_round :: "rat option \<Rightarrow> nat \<Rightarrow> rat option" where
  "sql_round v n = map_option (round_dec n) v"

definition count_distinct :: "'a option list \<Rightarrow> nat" where
  "count_distinct vs = length (remdups (non_null vs))"

text \<open>
  \<open>LEFT JOIN\<close>: the matching rows of the right table, or one \<open>NULL\<close> row when there is none.
  An \<open>INNER JOIN\<close> is the matching rows themselves.
\<close>

definition left_join :: "'a list \<Rightarrow> 'a option list" where
  "left_join matches = (if matches = [] then [None] else map Some matches)"

text \<open>\<open>(qs.marks_obtained / q.max_marks) * 100\<close>\<close>

definition percentage :: "quiz_submission_row option \<Rightarrow> quiz_row option \<Rightarrow> rat option" where
  "percentage qs q =
     map_option (\<lambda>v. v * 100) (sql_div (map_option qs_marks_obtained qs) (map_option q_max_marks q))"

subsection \<open>The view \<open>student_course_summary\<close>\<close>

record summary_row =
  sr_student_id :: int
  sr_student_name :: string
  sr_student_email :: string
  sr_course_id :: int
  sr_course_code :: string
  sr_course_name :: string
  sr_instructor_name :: string
  sr_enrolled_at :: int
  sr_enrollment_status :: enrollment_status
  total_quizzes :: nat
  quizzes_submitted :: nat
  avg_percentage :: "rat option"

type_synonym summary_join =
  "user_row \<times> enrollment_row \<times> course_row \<times> user_row \<times> quiz_row option \<times> quiz_submission_row option"

text \<open>The \<open>FROM\<close> and \<open>WHERE\<close> clauses: \<open>u\<close>, \<open>e\<close>, \<open>c\<close>, \<open>i\<close>, \<open>q\<close>, \<open>qs\<close> as in the view.\<close>

definition summary_from :: "mysql \<Rightarrow> summary_join list" where
  "summary_from d =
     [(u, e, c, i, q, qs).
        u \<leftarrow> users d,
        e \<leftarrow> filter (\<lambda>e. u_user_id u = e_student_id e) (enrollments d),
        c \<leftarrow> filter (\<lambda>c. e_course_id e = c_course_id c) (courses d),
        i \<leftarrow> filter (\<lambda>i. c_instructor_id c = u_user_id i) (users d),
        q \<leftarrow> left_join (filter (\<lambda>q. c_course_id c = q_course_id q) (quizzes d)),
        qs \<leftarrow> left_join (case q of
                            None \<Rightarrow> []
                          | Some q' \<Rightarrow> filter (\<lambda>s. q_quiz_id q' = qs_quiz_id s
                                                    \<and> qs_student_id s = u_user_id u)
                                         (quiz_submissions d)),
        u_role u = Student]"

text \<open>The \<open>GROUP BY\<close> columns.\<close>

type_synonym summary_key =
  "int \<times> string \<times> string \<times> int \<times> string \<times> string \<times> string \<times> int \<times> enrollment_status"

fun summary_key :: "summary_join \<Rightarrow> summary_key" where
  "summary_key (u, e, c, i, q, qs) =
     (u_user_id u, u_name u, u_email u, c_course_id c, c_course_code c, c_course_name c,
      u_name i, e_enrolled_at e, e_status e)"

text \<open>The \<open>SELECT\<close> list over one group.\<close>

fun summarize :: "summary_key \<Rightarrow> summary_join list \<Rightarrow> summary_row" where
  "summarize (sid, sname, semail, cid, ccode, cname, iname, since, st) rows =
     \<lparr>sr_student_id = sid, sr_student_name = sname, sr_student_email = semail,
      sr_course_id = cid, sr_course_code = ccode, sr_course_name = cname,
      sr_instructor_name = iname, sr_enrolled_at = since, sr_enrollment_status = st,
      total_quizzes = count_distinct (map (\<lambda>(u, e, c, i, q, qs). map_option q_quiz_id q) rows),
      quizzes_submitted =
        count_distinct (map (\<lambda>(u, e, c, i, q, qs). map_option qs_submission_id qs) rows),
      avg_percentage =
        sql_round (sql_avg (map (\<lambda>(u, e, c, i, q, qs). percentage qs q) rows)) 2\<rparr>"

definition student_course_summary :: "mysql \<Rightarrow> summary_row list" where
  "student_course_summary d =
     (let rows = summary_from d
      in map (\<lambda>k. summarize k (filter (\<lambda>r. summary_key r = k) rows))
           (remdups (map summary_key rows)))"

subsection \<open>The query of \<open>getCourseStudents\<close>\<close>

record student_row =
  st_user_id :: int
  st_name :: string
  st_email :: string
  st_enrolled_at :: int
  st_status :: enrollment_status
  st_quizzes_submitted :: nat
  st_avg_percentage :: "rat option"

type_synonym students_join =
  "enrollment_row \<times> user_row \<times> quiz_submission_row option \<times> quiz_row option"

definition students_from :: "mysql \<Rightarrow> int \<Rightarrow> students_join list" where
  "students_from d courseId =
     [(e, u, qs, q).
        e \<leftarrow> enrollments d,
        u \<leftarrow> filter (\<lambda>u. e_student_id e = u_user_id u) (users d),
        qs \<leftarrow> left_join (filter (\<lambda>s. u_user_id u = qs_student_id s) (quiz_submissions d)),
        q \<leftarrow> left_join (case qs of
                           None \<Rightarrow> []
                         | Some s \<Rightarrow> filter (\<lambda>q. qs_quiz_id s = q_quiz_id q
                                                  \<and> q_course_id q = e_course_id e) (quizzes d)),
        e_course_id e = courseId \<and> e_status e = Active]"

type_synonym students_key = "int \<times> string \<times> string \<times> int \<times> enrollment_status"

fun students_key :: "students_join \<Rightarrow> students_key" where
  "students_key (e, u, qs, q) = (u_user_id u, u_name u, u_email u, e_enrolled_at e, e_status e)"

fun student_of_group :: "students_key \<Rightarrow> students_join list \<Rightarrow> student_row" where
  "student_of_group (uid, uname, email, since, st) rows =
     \<lparr>st_user_id = uid, st_name = uname, st_email = email, st_enrolled_at = since, st_status = st,
      st_quizzes_submitted =
        count_distinct (map (\<lambda>(e, u, qs, q). map_option qs_submission_id qs) rows),
      st_avg_percentage = sql_round (sql_avg (map (\<lambda>(e, u, qs, q). percentage qs q) rows)) 2\<rparr>"

text \<open>\<open>ORDER BY u.name\<close> only orders the rows and is left out.\<close>

definition course_students :: "mysql \<Rightarrow> int \<Rightarrow> student_row list" where
  "course_students d courseId =
     (let rows = students_from d courseId
      in map (\<lambda>k. student_of_group k (filter (\<lambda>r. students_key r = k) rows))
           (remdups (map students_key rows)))"

text \<open>What the hypotheses of the summary properties speak of.\<close>

definition quizzes_of_course :: "mysql \<Rightarrow> int \<Rightarrow> quiz_row list" where
  "quizzes_of_course d courseId = filter (\<lambda>q. q_course_id q = courseId) (quizzes d)"

definition submissions_in_course :: "mysql \<Rightarrow> int \<Rightarrow> int \<Rightarrow> quiz_submission_row list" where
  "submissions_in_course d studentId courseId =
     filter (\<lambda>s. qs_student_id s = studentId
                 \<and> qs_quiz_id s \<in> set (map q_quiz_id (quizzes_of_course d courseId)))
       (quiz_submissions d)"

definition two_decimals :: "rat option \<Rightarrow> bool" where
  "two_decimals v = (case v of None \<Rightarrow> True | Some x \<Rightarrow> x * 100 \<in> \<int>)"

section \<open>Concrete stores and requests\<close>

subsection \<open>The sample data of \<open>schema.sql\<close>\<close>

definition sample_users :: "user_row list" where
  "sample_users =
     [\<lparr>u_user_id = 1, u_name = ''John Admin'', u_email = ''admin@university.edu'', u_role = Admin\<rparr>,
      \<lparr>u_user_id = 2, u_name = ''Dr. Divya Mishra'', u_email = ''divya.mishra@ddn.upes.ac.in'',
        u_role = Instructor\<rparr>,
      \<lparr>u_user_id = 3, u_name = ''Dr. Neelu Jyoti Ahuja'', u_email = ''neelu.ahuja@ddn.upes.ac.in'',
        u_role = Instructor\<rparr>,
      \<lparr>u_user_id = 4, u_name = ''Alice Smith'', u_email = ''alice.smith@student.edu'', u_role = Student\<rparr>,
      \<lparr>u_user_id = 5, u_name = ''Bob Williams'', u_email = ''bob.williams@student.edu'', u_role = Student\<rparr>,
      \<lparr>u_user_id = 6, u_name = ''Carol Davis'', u_email = ''carol.davis@student.edu'', u_role = Student\<rparr>,
      \<lparr>u_user_id = 7, u_name = ''David Brown'', u_email = ''david.brown@student.edu'', u_role = Student\<rparr>]"

definition sample_courses :: "course_row list" where
  "sample_courses =
     [\<lparr>c_course_id = 1, c_course_code = ''CS101'',
        c_course_name = ''Introduction to Computer Science'', c_instructor_id = 2\<rparr>,
      \<lparr>c_course_id = 2, c_course_code = ''CS201'',
        c_course_name = ''Data Structures and Algorithms'', c_instructor_id = 2\<rparr>,
      \<lparr>c_course_id = 3, c_course_code = ''CS301'',
        c_course_name = ''Database Management Systems'', c_instructor_id = 3\<rparr>,
      \<lparr>c_course_id = 4, c_course_code = ''CS401'',
        c_course_name = ''Web Development'', c_instructor_id = 3\<rparr>]"

definition enrolled :: "int \<Rightarrow> int \<Rightarrow> int \<Rightarrow> enrollment_status \<Rightarrow> enrollment_row" where
  "enrolled n studentId courseId st =
     \<lparr>e_enrollment_id = n, e_student_id = studentId, e_course_id = courseId,
      e_enrolled_at = 0, e_status = st\<rparr>"

definition sample_enrollments :: "enrollment_row list" where
  "sample_enrollments =
     [enrolled 1 4 1 Active, enrolled 2 4 3 Active, enrolled 3 5 1 Active,
      enrolled 4 5 2 Active, enrolled 5 5 3 Active, enrolled 6 6 2 Active,
      enrolled 7 6 4 Active, enrolled 8 7 1 Active, enrolled 9 7 3 Active]"

definition sample_quizzes :: "quiz_row list" where
  "sample_quizzes =
     [\<lparr>q_quiz_id = 1, q_course_id = 1, q_title = ''Quiz 1: Programming Basics'', q_max_marks = 50\<rparr>,
      \<lparr>q_quiz_id = 2, q_course_id = 1, q_title = ''Quiz 2: Functions and Arrays'', q_max_marks = 50\<rparr>,
      \<lparr>q_quiz_id = 3, q_course_id = 3, q_title = ''Quiz 1: SQL Fundamentals'', q_max_marks = 100\<rparr>,
      \<lparr>q_quiz_id = 4, q_course_id = 3, q_title = ''Quiz 2: Normalization'', q_max_marks = 100\<rparr>,
      \<lparr>q_quiz_id = 5, q_course_id = 2, q_title = ''Quiz 1: Complexity Analysis'', q_max_marks = 75\<rparr>]"

definition submitted_quiz :: "int \<Rightarrow> int \<Rightarrow> int \<Rightarrow> int \<Rightarrow> quiz_submission_row" where
  "submitted_quiz n quizId studentId marks =
     \<lparr>qs_submission_id = n, qs_quiz_id = quizId, qs_student_id = studentId,
      qs_marks_obtained = marks\<rparr>"

definition sample_quiz_submissions :: "quiz_submission_row list" where
  "sample_quiz_submissions =
     [submitted_quiz 1 1 4 45, submitted_quiz 2 1 5 38, submitted_quiz 3 1 7 42,
      submitted_quiz 4 3 4 85, submitted_quiz 5 3 5 92, submitted_quiz 6 3 7 78,
      submitted_quiz 7 5 5 68, submitted_quiz 8 5 6 71]"

definition sample_db :: mysql where
  "sample_db = \<lparr>users = sample_users, courses = sample_courses,
                 enrollments = sample_enrollments, quizzes = sample_quizzes,
                 quiz_submissions = sample_quiz_submissions, auto_increment = 10,
                 reachable = True\<rparr>"

text \<open>
  A small database for the summaries: Carol (6) is enrolled in CS201 (course 2, one quiz,
  which she answered with 71 of 75), in CS401 (course 4, no quiz) and in CS101 (course 1,
  two quizzes, none answered).
\<close>

definition carol_db :: mysql where
  "carol_db = \<lparr>users = [sample_users ! 1, sample_users ! 2, sample_users ! 5],
                courses = sample_courses,
                enrollments = [enrolled 6 6 2 Active, enrolled 7 6 4 Active, enrolled 10 6 1 Active],
                quizzes = sample_quizzes,
                quiz_submissions = [submitted_quiz 8 5 6 71],
                auto_increment = 11, reachable = True\<rparr>"

text \<open>Carol's rows in the view and in the student list of CS101.\<close>

definition carol_summary :: "int \<Rightarrow> string \<Rightarrow> string \<Rightarrow> string \<Rightarrow> nat \<Rightarrow> nat \<Rightarrow> rat option \<Rightarrow> summary_row" where
  "carol_summary courseId code title instructor quizzes' answered average =
     \<lparr>sr_student_id = 6, sr_student_name = ''Carol Davis'',
      sr_student_email = ''carol.davis@student.edu'', sr_course_id = courseId,
      sr_course_code = code, sr_course_name = title, sr_instructor_name = instructor,
      sr_enrolled_at = 0, sr_enrollment_status = Active, total_quizzes = quizzes',
      quizzes_submitted = answered, avg_percentage = average\<rparr>"

definition carol_cs201 :: summary_row where
  "carol_cs201 = carol_summary 2 ''CS201'' ''Data Structures and Algorithms'' ''Dr. Divya Mishra''
                   1 1 (Some (9467 / 100))"

definition carol_cs401 :: summary_row where
  "carol_cs401 = carol_summary 4 ''CS401'' ''Web Development'' ''Dr. Neelu Jyoti Ahuja'' 0 0 None"

definition carol_cs101 :: summary_row where
  "carol_cs101 = carol_summary 1 ''CS101'' ''Introduction to Computer Science''
                   ''Dr. Divya Mishra'' 2 0 None"

definition carol_student :: student_row where
  "carol_student = \<lparr>st_user_id = 6, st_name = ''Carol Davis'',
                     st_email = ''carol.davis@student.edu'', st_enrolled_at = 0,
                     st_status = Active, st_quizzes_submitted = 1, st_avg_percentage = None\<rparr>"

text \<open>The sample data with Alice's enrollment in CS101 dropped.\<close>

definition dropped_db :: mysql where
  "dropped_db = sample_db\<lparr>enrollments := enrolled 1 4 1 Dropped # tl sample_enrollments\<rparr>"

definition world0 :: "mysql \<Rightarrow> activity_log list world" where
  "world0 d = \<lparr>db = d, logs = [], console = []\<rparr>"




text \<open>
  The foreign key \<open>enrollments.course_id REFERENCES courses(course_id)\<close>, as a property of a
  database state.
\<close>

definition fk_enrollment_course :: "mysql \<Rightarrow> bool" where
  "fk_enrollment_course d \<longleftrightarrow> set (map e_course_id (enrollments d)) \<subseteq> set (map c_course_id (courses d))"

text \<open>Requests for course 999, which the sample data does not have.\<close>

definition alice :: user_ctx where
  "alice = \<lparr>user_id = 4, name = ''Alice Smith'', user_role = Student\<rparr>"

definition discussion_request_999 :: createDiscussion_request where
  "discussion_request_999 =
     \<lparr>cd_courseId = ''999'', cd_title = Some ''Question'', cd_content = Some ''hello'',
      cd_tags = None, cd_user = alice\<rparr>"

definition assignment_request_999 :: submitAssignment_request where
  "assignment_request_999 =
     \<lparr>sa_courseId = ''999'', sa_title = Some ''Essay'', sa_description = None,
      sa_submission_type = Some ''text'', sa_submission_content = Some ''my answer'',
      sa_user = alice\<rparr>"

text \<open>
  Answers of the two stores for \<open>getPlatformStats\<close>: all reads succeed; the document store
  is down; the relational store is down.
\<close>

definition env_up :: stats_env where
  "env_up = \<lparr>userStats = Inr [(''admin'', 1), (''instructor'', 2), (''student'', 4)],
             courseStats = Inr [4], enrollmentStats = Inr [9], quizStats = Inr [5],
             submissionStats = Inr [8], totalActivities = Inr 12, totalDiscussions = Inr 3,
             totalAssignments = Inr 2, activityTrend = Inr [(''2025-12-14'', 12)]\<rparr>"

definition env_mongodb_down :: stats_env where
  "env_mongodb_down =
     env_up\<lparr>totalActivities := Inl (StoreError ''connect ECONNREFUSED''),
            totalDiscussions := Inl (StoreError ''connect ECONNREFUSED''),
            totalAssignments := Inl (StoreError ''connect ECONNREFUSED''),
            activityTrend := Inl (StoreError ''connect ECONNREFUSED'')\<rparr>"

definition env_mysql_down :: stats_env where
  "env_mysql_down =
     env_up\<lparr>userStats := Inl (StoreError ''connect ECONNREFUSED''),
            courseStats := Inl (StoreError ''connect ECONNREFUSED''),
            enrollmentStats := Inl (StoreError ''connect ECONNREFUSED''),
            quizStats := Inl (StoreError ''connect ECONNREFUSED''),
            submissionStats := Inl (StoreError ''connect ECONNREFUSED'')\<rparr>"

text \<open>A request as the enroll route sees it: Alice, \<open>POST /api/courses/2/enroll\<close>, no body.\<close>

definition enroll_request :: request where
  "enroll_request = \<lparr>rq_user = Some alice, rq_courseId = None, rq_id = Some ''2'',
                      rq_body = Some None, rq_metadata = [(''browser'', ''Firefox'')]\<rparr>"

section \<open>Properties of the model methods\<close>

subsection \<open>Array helpers\<close>

lemma findIndex_ge: "findIndex P xs \<ge> -1"
  by (induction xs) (auto simp: Let_def)

lemma findIndex_absent: "findIndex P xs = -1 \<longleftrightarrow> (\<forall>x\<in>set xs. \<not> P x)"
proof (induction xs)
  case Nil
  then show ?case by simp
next
  case (Cons x xs)
  have "findIndex P xs + 1 \<noteq> -1" using findIndex_ge [of P xs] by linarith
  then show ?case using Cons by (auto simp: Let_def)
qed

lemma findIndex_present:
  "findIndex P xs \<noteq> -1 \<Longrightarrow>
     0 \<le> findIndex P xs \<and> nat (findIndex P xs) < length xs \<and> P (xs ! nat (findIndex P xs))"
proof (induction xs)
  case Nil
  then show ?case by simp
next
  case (Cons x xs)
  show ?case
  proof (cases "P x")
    case True
    then show ?thesis by simp
  next
    case False
    with Cons.prems have ne: "findIndex P xs \<noteq> -1" by (auto simp: Let_def)
    from Cons.IH [OF ne] have ih: "0 \<le> findIndex P xs" "nat (findIndex P xs) < length xs"
      "P (xs ! nat (findIndex P xs))" by simp_all
    have "nat (findIndex P xs + 1) = Suc (nat (findIndex P xs))" using ih(1) by simp
    then show ?thesis using False ne ih by (simp add: Let_def)
  qed
qed

lemma findIndex_first:
  "findIndex P xs \<noteq> -1 \<Longrightarrow> List.find P xs = Some (xs ! nat (findIndex P xs))"
proof (induction xs)
  case Nil
  then show ?case by simp
next
  case (Cons x xs)
  show ?case
  proof (cases "P x")
    case True
    then show ?thesis by simp
  next
    case False
    with Cons.prems have ne: "findIndex P xs \<noteq> -1" by (auto simp: Let_def)
    have nn: "0 \<le> findIndex P xs" using findIndex_present [OF ne] by simp
    have "nat (findIndex P xs + 1) = Suc (nat (findIndex P xs))" using nn by simp
    then show ?thesis using False ne Cons.IH [OF ne] by (simp add: Let_def)
  qed
qed

lemma find_update_same:
  "i < length xs \<Longrightarrow> List.find P xs = Some (xs ! i) \<Longrightarrow> P y \<Longrightarrow> (\<forall>j<i. \<not> P (xs ! j))
     \<Longrightarrow> List.find P (xs[i := y]) = Some y"
proof (induction xs arbitrary: i)
  case Nil
  then show ?case by simp
next
  case (Cons x xs)
  show ?case
  proof (cases i)
    case 0
    then show ?thesis using Cons.prems by simp
  next
    case (Suc k)
    have npx: "\<not> P x" using Cons.prems(4) Suc by auto
    have "\<forall>j<k. \<not> P (xs ! j)" using Cons.prems(4) Suc by auto
    then show ?thesis using Cons Suc npx by simp
  qed
qed

lemma findIndex_least: "j < nat (findIndex P xs) \<Longrightarrow> \<not> P (xs ! j)"
proof (induction xs arbitrary: j)
  case Nil
  then show ?case by simp
next
  case (Cons x xs)
  show ?case
  proof (cases "P x")
    case True
    then show ?thesis using Cons.prems by simp
  next
    case False
    show ?thesis
    proof (cases j)
      case 0
      then show ?thesis using False by simp
    next
      case (Suc k)
      have "findIndex P xs \<noteq> -1" using Cons.prems False by (auto simp: Let_def split: if_splits)
      then have "k < nat (findIndex P xs)" using Cons.prems False Suc
        by (auto simp: Let_def split: if_splits)
      then show ?thesis using Cons.IH Suc by simp
    qed
  qed
qed

lemma find_append_new:
  "(\<forall>x\<in>set xs. \<not> P x) \<Longrightarrow> P y \<Longrightarrow> List.find P (xs @ [y]) = Some y"
  by (induction xs) auto


lemma find_update_first:
  "List.find P xs = Some x \<Longrightarrow> P (f x) \<Longrightarrow> List.find P (update_first P f xs) = Some (f x)"
  by (induction xs) (auto split: if_splits)

lemma length_update_first: "length (update_first P f xs) = length xs"
  by (induction xs) auto

lemma filter_update_first:
  "(\<And>x. P x \<Longrightarrow> P (f x)) \<Longrightarrow> filter (\<lambda>x. \<not> P x) (update_first P f xs) = filter (\<lambda>x. \<not> P x) xs"
  by (induction xs) auto

subsection \<open>Discussion: \<open>addPost\<close> and \<open>editPost\<close>\<close>

lemma fold_max_Max: "fold max is (i::int) = Max (set (i # is))"
  by (rule Max.set_eq_fold [symmetric])

lemma addPost_new_id:
  "(case map post_id ps of [] \<Rightarrow> 1 | i # is \<Rightarrow> fold max is i + 1)
     = (if ps = [] then 1 else Max (post_id ` set ps) + 1)"
proof (cases ps)
  case Nil
  then show ?thesis by simp
next
  case (Cons a as)
  have "fold max (map post_id as) (post_id a) = Max (set (post_id a # map post_id as))"
    by (rule fold_max_Max)
  then show ?thesis using Cons by simp
qed

lemma new_id_fresh:
  "p \<in> set ps \<Longrightarrow> post_id p < (if ps = [] then 1 else Max (post_id ` set ps) + 1)"
proof -
  assume a: "p \<in> set ps"
  then have "ps \<noteq> []" by auto
  moreover have "post_id p \<le> Max (post_id ` set ps)" using a by simp
  ultimately show ?thesis by simp
qed

text \<open>
  Claim C5. \<open>addPost\<close> hands to \<open>save\<close> the discussion with one post appended; the new
  post's \<open>post_id\<close> is 1 when there was no post and the maximum of the existing ids plus 1
  otherwise; \<open>post_count\<close> is the length of the new list and \<open>updated_at\<close> the current time.
  Ids that were pairwise different stay so. \<open>editPost\<close> of an id that no post has fails with
  NotFound (\<open>'Post not found'\<close>) without calling \<open>save\<close>: the store is as it was.
\<close>

theorem addPost_editPost_spec:
  "\<exists>d' p. addPost save d userId c now s = save d' s
     \<and> posts d' = posts d @ [p]
     \<and> post_id p = (if posts d = [] then 1 else Max (post_id ` set (posts d)) + 1)
     \<and> p_user_id p = userId \<and> content p = c
     \<and> post_count d' = int (length (posts d'))
     \<and> d_updated_at d' = now
     \<and> (distinct (map post_id (posts d)) \<longrightarrow> distinct (map post_id (posts d')))
     \<and> ((\<forall>q\<in>set (posts d). post_id q \<noteq> postId) \<longrightarrow>
           editPost save d postId newContent now s = (Inl (NotFound ''Post not found''), s))"
proof -
  let ?n = "if posts d = [] then 1 else Max (post_id ` set (posts d)) + 1"
  let ?p = "\<lparr>post_id = ?n, p_user_id = userId, content = c,
              p_created_at = now, edited_at = None, is_edited = False\<rparr>"
  let ?d = "d\<lparr>posts := posts d @ [?p], post_count := int (length (posts d @ [?p])), d_updated_at := now\<rparr>"
  have run: "addPost save d userId c now s = save ?d s"
    unfolding addPost_def Let_def addPost_new_id ..
  have fresh: "\<forall>q\<in>set (posts d). post_id q \<noteq> ?n"
    using new_id_fresh by fastforce
  have dist: "distinct (map post_id (posts d)) \<longrightarrow> distinct (map post_id (posts ?d))"
    using fresh by auto
  have edit: "(\<forall>q\<in>set (posts d). post_id q \<noteq> postId) \<longrightarrow>
           editPost save d postId newContent now s = (Inl (NotFound ''Post not found''), s)"
  proof
    assume "\<forall>q\<in>set (posts d). post_id q \<noteq> postId"
    then have "List.find (\<lambda>p. post_id p = postId) (posts d) = None"
      by (simp add: find_None_iff)
    then show "editPost save d postId newContent now s = (Inl (NotFound ''Post not found''), s)"
      by (simp add: editPost_def)
  qed
  show ?thesis
    apply (rule exI [of _ ?d], rule exI [of _ ?p])
    using run dist edit by simp
qed

lemma thread1_eq: "thread1 = thread0\<lparr>posts := [\<lparr>post_id = 1, p_user_id = 4, content = ''hello'',
                       p_created_at = 10, edited_at = None, is_edited = False\<rparr>], post_count := 1, d_updated_at := 10\<rparr>"
  by (simp add: thread1_def thread0_def addPost_def doc_save_def Let_def)

theorem addPost_editPost_spec_witness:
  "distinct (map post_id (posts thread1)) \<and> 99 \<notin> set (map post_id (posts thread2))
   \<and> map post_id (posts thread1) = [1] \<and> post_count thread1 = 1
   \<and> map post_id (posts thread2) = [1, 2] \<and> post_count thread2 = 2
   \<and> editPost doc_save thread2 99 ''x'' 30 thread2 = (Inl (NotFound ''Post not found''), thread2)"
  using addPost_editPost_spec [where save = doc_save and d = thread1 and userId = 2
      and c = "''world''" and now = 20 and s = thread1 and postId = 99 and newContent = "''x''"]
    addPost_editPost_spec [where save = doc_save and d = thread2 and userId = 2
      and c = "''again''" and now = 30 and s = thread2 and postId = 99 and newContent = "''x''"]
  by (simp add: thread2_def thread1_def thread0_def addPost_def doc_save_def Let_def)

subsection \<open>Assignment: \<open>addSubmission\<close> and \<open>gradeSubmission\<close>\<close>

lemma addSubmission_rejected:
  "due_date a < now \<Longrightarrow> \<not> allow_late_submission a \<Longrightarrow>
     addSubmission save a sid sd now s = (Inl LateSubmissionRejected, s)"
  by (simp add: addSubmission_def Let_def)

lemma addSubmission_replace:
  assumes acc: "\<not> (due_date a < now \<and> \<not> allow_late_submission a)"
    and ex: "findIndex (\<lambda>x. student_id x = sid) (submissions a) \<noteq> -1"
  shows "addSubmission save a sid sd now s =
           save (a\<lparr>submissions := (submissions a)
                      [nat (findIndex (\<lambda>x. student_id x = sid) (submissions a))
                         := new_submission sid sd now (due_date a < now)],
                   a_updated_at := now\<rparr>) s"
  using acc ex by (auto simp add: addSubmission_def Let_def)

lemma addSubmission_push:
  assumes acc: "\<not> (due_date a < now \<and> \<not> allow_late_submission a)"
    and ex: "findIndex (\<lambda>x. student_id x = sid) (submissions a) = -1"
  shows "addSubmission save a sid sd now s =
           save (a\<lparr>submissions := submissions a @ [new_submission sid sd now (due_date a < now)],
                   submission_count := int (length (submissions a @ [new_submission sid sd now (due_date a < now)])),
                   a_updated_at := now\<rparr>) s"
  using acc ex by (auto simp add: addSubmission_def Let_def)

lemma hw1_eq: "hw1 = hw0\<lparr>submissions := [new_submission 4 (text_answer ''first'') 1765706400000 False],
     submission_count := 1, a_updated_at := 1765706400000\<rparr>"
  by (simp add: hw1_def scenario_def submit_all_def submit_step_def addSubmission_def doc_save_def hw0_def Let_def)

text \<open>
  Claim C3. A submission after \<open>due_date\<close> to an assignment that does not allow late
  submissions fails with LateSubmissionRejected before anything is assigned and without a
  call of \<open>save\<close>, so neither the document nor the store changes. An accepted submission is
  the student's entry afterwards, with status \<open>late\<close> when it came after the due date (late
  submissions being allowed) and \<open>submitted\<close> otherwise.
\<close>

theorem addSubmission_late_spec:
  "(due_date a < now \<and> \<not> allow_late_submission a \<longrightarrow>
      addSubmission save a sid sd now s = (Inl LateSubmissionRejected, s))
   \<and> (\<not> (due_date a < now \<and> \<not> allow_late_submission a) \<longrightarrow>
      (\<exists>a' sub. addSubmission save a sid sd now s = save a' s
          \<and> getSubmissionByStudent a' sid = Some sub
          \<and> status sub = (if due_date a < now then Late else Submitted)))"
proof (intro conjI impI)
  assume "due_date a < now \<and> \<not> allow_late_submission a"
  then show "addSubmission save a sid sd now s = (Inl LateSubmissionRejected, s)"
    by (simp add: addSubmission_rejected)
next
  assume acc: "\<not> (due_date a < now \<and> \<not> allow_late_submission a)"
  let ?P = "\<lambda>x. student_id x = sid"
  let ?i = "findIndex ?P (submissions a)"
  let ?sub = "new_submission sid sd now (due_date a < now)"
  have P: "?P ?sub" by (simp add: new_submission_def)
  have st: "status ?sub = (if due_date a < now then Late else Submitted)"
    by (simp add: new_submission_def)
  show "\<exists>a' sub. addSubmission save a sid sd now s = save a' s
          \<and> getSubmissionByStudent a' sid = Some sub
          \<and> status sub = (if due_date a < now then Late else Submitted)"
  proof (cases "?i = -1")
    case True
    then have "\<forall>x\<in>set (submissions a). \<not> ?P x" by (simp add: findIndex_absent)
    then have "List.find ?P (submissions a @ [?sub]) = Some ?sub"
      using P by (rule find_append_new)
    then show ?thesis
      using addSubmission_push [OF acc True, of save sd s] st
      by (auto simp add: getSubmissionByStudent_def)
  next
    case False
    note pr = findIndex_present [OF False]
    have "List.find ?P ((submissions a)[nat ?i := ?sub]) = Some ?sub"
    proof (rule find_update_same)
      show "nat ?i < length (submissions a)" using pr by simp
      show "List.find ?P (submissions a) = Some (submissions a ! nat ?i)"
        using False by (rule findIndex_first)
      show "?P ?sub" by (rule P)
      show "\<forall>j<nat ?i. \<not> ?P (submissions a ! j)" using findIndex_least by blast
    qed
    then show ?thesis
      using addSubmission_replace [OF acc False, of save sd s] st
      by (auto simp add: getSubmissionByStudent_def)
  qed
qed

theorem addSubmission_late_spec_witness:
  "(due_date hw1 < 1765843200000 \<and> \<not> allow_late_submission hw1)
   \<and> addSubmission doc_save hw1 5 (text_answer ''late'') 1765843200000 hw1 = (Inl LateSubmissionRejected, hw1)
   \<and> \<not> (due_date hw_late_ok < 1765843200000 \<and> \<not> allow_late_submission hw_late_ok)
   \<and> map status (submissions (snd (addSubmission doc_save hw_late_ok 5 (text_answer ''late'') 1765843200000 hw_late_ok))) = [Late]
   \<and> map status (submissions hw1) = [Submitted]"
  using addSubmission_late_spec [where a = hw1 and now = 1765843200000 and save = doc_save
      and sid = 5 and sd = "text_answer ''late''" and s = hw1]
    addSubmission_late_spec [where a = hw_late_ok and now = 1765843200000 and save = doc_save
      and sid = 5 and sd = "text_answer ''late''" and s = hw_late_ok]
  by (simp add: hw1_eq hw_late_ok_def hw0_def addSubmission_def doc_save_def new_submission_def Let_def)

text \<open>
  Claim C4. \<open>gradeSubmission\<close> fails with NotFound when the student has no entry; when there
  is one and the grade is above \<open>max_marks\<close> it fails with GradeOutOfRange, in both cases
  without a call of \<open>save\<close>. Otherwise the student's entry gets the grade, the feedback, the
  grader, the grading time and status \<open>graded\<close>, its other fields and every other student's
  entry staying as they were.
\<close>

theorem gradeSubmission_spec:
  "(getSubmissionByStudent a sid = None \<longrightarrow>
      gradeSubmission save a sid gd now s
        = (Inl (NotFound ''Submission not found for this student''), s))
   \<and> (getSubmissionByStudent a sid \<noteq> None \<and> max_marks a < gd_grade gd \<longrightarrow>
      gradeSubmission save a sid gd now s = (Inl (GradeOutOfRange (max_marks a)), s))
   \<and> (\<forall>old. getSubmissionByStudent a sid = Some old \<and> gd_grade gd \<le> max_marks a \<longrightarrow>
      (\<exists>a'. gradeSubmission save a sid gd now s = save a' s
          \<and> getSubmissionByStudent a' sid =
              Some (old\<lparr>grade := Some (gd_grade gd), feedback := gd_feedback gd,
                        graded_by := gd_graded_by gd, graded_at := Some now, status := Graded\<rparr>)
          \<and> length (submissions a') = length (submissions a)
          \<and> filter (\<lambda>x. student_id x \<noteq> sid) (submissions a')
              = filter (\<lambda>x. student_id x \<noteq> sid) (submissions a)))"
proof (intro conjI impI allI)
  assume "getSubmissionByStudent a sid = None"
  then show "gradeSubmission save a sid gd now s
        = (Inl (NotFound ''Submission not found for this student''), s)"
    by (simp add: gradeSubmission_def getSubmissionByStudent_def)
next
  assume "getSubmissionByStudent a sid \<noteq> None \<and> max_marks a < gd_grade gd"
  then show "gradeSubmission save a sid gd now s = (Inl (GradeOutOfRange (max_marks a)), s)"
    by (auto simp add: gradeSubmission_def getSubmissionByStudent_def)
next
  fix old
  assume h: "getSubmissionByStudent a sid = Some old \<and> gd_grade gd \<le> max_marks a"
  let ?P = "\<lambda>x. student_id x = sid"
  let ?f = "\<lambda>x. x\<lparr>grade := Some (gd_grade gd), feedback := gd_feedback gd,
                    graded_by := gd_graded_by gd, graded_at := Some now, status := Graded\<rparr>"
  let ?a = "a\<lparr>submissions := update_first ?P ?f (submissions a), a_updated_at := now\<rparr>"
  from h have fo: "List.find ?P (submissions a) = Some old"
    by (simp add: getSubmissionByStudent_def)
  then have "?P old" by (auto simp: find_Some_iff)
  then have "?P (?f old)" by simp
  with fo have "List.find ?P (update_first ?P ?f (submissions a)) = Some (?f old)"
    by (rule find_update_first)
  moreover have "gradeSubmission save a sid gd now s = save ?a s"
    using h fo by (simp add: gradeSubmission_def)
  moreover have "filter (\<lambda>x. \<not> ?P x) (update_first ?P ?f (submissions a))
                   = filter (\<lambda>x. \<not> ?P x) (submissions a)"
    by (rule filter_update_first) simp
  ultimately show "\<exists>a'. gradeSubmission save a sid gd now s = save a' s
          \<and> getSubmissionByStudent a' sid = Some (?f old)
          \<and> length (submissions a') = length (submissions a)
          \<and> filter (\<lambda>x. student_id x \<noteq> sid) (submissions a')
              = filter (\<lambda>x. student_id x \<noteq> sid) (submissions a)"
    by (intro exI [of _ ?a]) (simp add: getSubmissionByStudent_def length_update_first)
qed

theorem gradeSubmission_spec_witness:
  "getSubmissionByStudent hw1 6 = None
   \<and> gradeSubmission doc_save hw1 6 (grade_of 85) 50 hw1
        = (Inl (NotFound ''Submission not found for this student''), hw1)
   \<and> getSubmissionByStudent hw1 4 \<noteq> None \<and> max_marks hw1 < gd_grade (grade_of 101)
   \<and> gradeSubmission doc_save hw1 4 (grade_of 101) 50 hw1 = (Inl (GradeOutOfRange 100), hw1)
   \<and> gd_grade (grade_of 85) \<le> max_marks hw1
   \<and> map (\<lambda>x. (grade x, status x)) (submissions (snd (gradeSubmission doc_save hw1 4 (grade_of 85) 50 hw1)))
        = [(Some 85, Graded)]"
  using gradeSubmission_spec [where a = hw1 and sid = 6 and save = doc_save and gd = "grade_of 85"
      and now = 50 and s = hw1]
    gradeSubmission_spec [where a = hw1 and sid = 4 and save = doc_save and gd = "grade_of 101"
      and now = 50 and s = hw1]
    gradeSubmission_spec [where a = hw1 and sid = 4 and save = doc_save and gd = "grade_of 85"
      and now = 50 and s = hw1]
  by (simp add: hw1_eq hw0_def gradeSubmission_def getSubmissionByStudent_def doc_save_def
      new_submission_def grade_of_def)

lemma map_sid_update:
  "i < length xs \<Longrightarrow> student_id (xs ! i) = sid \<Longrightarrow> student_id y = sid
     \<Longrightarrow> map student_id (xs[i := y]) = map student_id xs"
  by (simp add: map_update list_update_same_conv)

lemma submit_step_cases:
  "submit_step a r = a
   \<or> (findIndex (\<lambda>x. student_id x = op_student r) (submissions a) \<noteq> -1 \<and>
       submit_step a r = a\<lparr>submissions := (submissions a)
                      [nat (findIndex (\<lambda>x. student_id x = op_student r) (submissions a))
                         := new_submission (op_student r) (op_data r) (op_now r) (due_date a < op_now r)],
                   a_updated_at := op_now r\<rparr>)
   \<or> (findIndex (\<lambda>x. student_id x = op_student r) (submissions a) = -1 \<and>
       submit_step a r = a\<lparr>submissions := submissions a @
                        [new_submission (op_student r) (op_data r) (op_now r) (due_date a < op_now r)],
                   submission_count := int (length (submissions a @
                        [new_submission (op_student r) (op_data r) (op_now r) (due_date a < op_now r)])),
                   a_updated_at := op_now r\<rparr>)"
proof (cases "due_date a < op_now r \<and> \<not> allow_late_submission a")
  case True
  then show ?thesis by (simp add: submit_step_def addSubmission_rejected)
next
  case acc: False
  show ?thesis
  proof (cases "findIndex (\<lambda>x. student_id x = op_student r) (submissions a) = -1")
    case True
    show ?thesis
      using True unfolding submit_step_def addSubmission_push [OF acc True]
      by (simp add: doc_save_def)
  next
    case False
    show ?thesis
      using False unfolding submit_step_def addSubmission_replace [OF acc False]
      by (simp add: doc_save_def)
  qed
qed

lemma submit_step_inv:
  assumes "one_per_student a" "count_ok a"
  shows "one_per_student (submit_step a r) \<and> count_ok (submit_step a r)"
proof -
  let ?P = "\<lambda>x. student_id x = op_student r"
  let ?i = "findIndex ?P (submissions a)"
  let ?sub = "new_submission (op_student r) (op_data r) (op_now r) (due_date a < op_now r)"
  have sid: "student_id ?sub = op_student r" by (simp add: new_submission_def)
  from submit_step_cases [of a r] show ?thesis
  proof (elim disjE conjE)
    assume "submit_step a r = a"
    then show ?thesis using assms by simp
  next
    assume ne: "?i \<noteq> -1"
      and st: "submit_step a r = a\<lparr>submissions := (submissions a)[nat ?i := ?sub], a_updated_at := op_now r\<rparr>"
    note pr = findIndex_present [OF ne]
    have "map student_id ((submissions a)[nat ?i := ?sub]) = map student_id (submissions a)"
      using pr sid by (intro map_sid_update) simp_all
    then show ?thesis using assms st by (simp add: one_per_student_def count_ok_def)
  next
    assume e: "?i = -1"
      and st: "submit_step a r = a\<lparr>submissions := submissions a @ [?sub],
                   submission_count := int (length (submissions a @ [?sub])),
                   a_updated_at := op_now r\<rparr>"
    from e have "op_student r \<notin> student_id ` set (submissions a)"
      by (auto simp: findIndex_absent)
    then show ?thesis using assms st sid by (simp add: one_per_student_def count_ok_def)
  qed
qed

lemma submit_all_inv:
  "one_per_student a \<Longrightarrow> count_ok a \<Longrightarrow>
     one_per_student (submit_all a rs) \<and> count_ok (submit_all a rs)"
  unfolding submit_all_def
proof (induction rs arbitrary: a)
  case Nil
  then show ?case by simp
next
  case (Cons r rs)
  have "one_per_student (submit_step a r) \<and> count_ok (submit_step a r)"
    using Cons.prems by (rule submit_step_inv)
  then show ?case using Cons.IH by simp
qed

text \<open>
  Claim C2. Any sequence of submit requests run against a stored assignment that has at most
  one entry per student and whose \<open>submission_count\<close> is the number of entries leaves it so;
  an assignment without submissions and with \<open>submission_count = 0\<close>, as the schema's defaults
  create it, is such a document.
  An accepted submission of a student who already has an entry is written over that entry, at
  its position: the list keeps its length and \<open>submission_count\<close> its value.
\<close>

theorem addSubmission_one_per_student:
  "(one_per_student a \<and> count_ok a \<longrightarrow>
      one_per_student (submit_all a rs) \<and> count_ok (submit_all a rs))
   \<and> (submissions a = [] \<and> submission_count a = 0 \<longrightarrow>
      one_per_student (submit_all a rs) \<and> count_ok (submit_all a rs))
   \<and> ((\<exists>x\<in>set (submissions a). student_id x = sid)
        \<and> \<not> (due_date a < now \<and> \<not> allow_late_submission a) \<longrightarrow>
      (\<exists>a' i. addSubmission save a sid sd now s = save a' s
          \<and> i < length (submissions a) \<and> student_id (submissions a ! i) = sid
          \<and> submissions a' = (submissions a)[i := new_submission sid sd now (due_date a < now)]
          \<and> length (submissions a') = length (submissions a)
          \<and> submission_count a' = submission_count a))"
proof (intro conjI)
  show "one_per_student a \<and> count_ok a \<longrightarrow>
      one_per_student (submit_all a rs) \<and> count_ok (submit_all a rs)"
    using submit_all_inv by blast
next
  show "submissions a = [] \<and> submission_count a = 0 \<longrightarrow>
      one_per_student (submit_all a rs) \<and> count_ok (submit_all a rs)"
  proof
    assume "submissions a = [] \<and> submission_count a = 0"
    then have "one_per_student a" "count_ok a"
      by (simp_all add: one_per_student_def count_ok_def)
    then show "one_per_student (submit_all a rs) \<and> count_ok (submit_all a rs)"
      by (rule submit_all_inv)
  qed
next
  show "(\<exists>x\<in>set (submissions a). student_id x = sid)
        \<and> \<not> (due_date a < now \<and> \<not> allow_late_submission a) \<longrightarrow>
      (\<exists>a' i. addSubmission save a sid sd now s = save a' s
          \<and> i < length (submissions a) \<and> student_id (submissions a ! i) = sid
          \<and> submissions a' = (submissions a)[i := new_submission sid sd now (due_date a < now)]
          \<and> length (submissions a') = length (submissions a)
          \<and> submission_count a' = submission_count a)"
  proof
    assume h: "(\<exists>x\<in>set (submissions a). student_id x = sid)
        \<and> \<not> (due_date a < now \<and> \<not> allow_late_submission a)"
    let ?i = "findIndex (\<lambda>x. student_id x = sid) (submissions a)"
    from h have ne: "?i \<noteq> -1" by (auto simp: findIndex_absent)
    from h have acc: "\<not> (due_date a < now \<and> \<not> allow_late_submission a)" by simp
    note pr = findIndex_present [OF ne]
    show "\<exists>a' i. addSubmission save a sid sd now s = save a' s
          \<and> i < length (submissions a) \<and> student_id (submissions a ! i) = sid
          \<and> submissions a' = (submissions a)[i := new_submission sid sd now (due_date a < now)]
          \<and> length (submissions a') = length (submissions a)
          \<and> submission_count a' = submission_count a"
      apply (rule exI [of _ "a\<lparr>submissions := (submissions a)[nat ?i := new_submission sid sd now (due_date a < now)],
                   a_updated_at := now\<rparr>"], rule exI [of _ "nat ?i"])
      using addSubmission_replace [OF acc ne, of save sd s] pr by simp
  qed
qed

theorem addSubmission_one_per_student_witness:
  "one_per_student hw0 \<and> count_ok hw0
   \<and> submissions hw0 = [] \<and> submission_count hw0 = 0
   \<and> map student_id (submissions (submit_all hw0 scenario)) = [4]
   \<and> submission_count (submit_all hw0 scenario) = 1
   \<and> map submission_text (submissions (submit_all hw0 scenario)) = [Some ''second'']
   \<and> (\<exists>x\<in>set (submissions hw1). student_id x = 4)
   \<and> \<not> (due_date hw1 < 1765724400000 \<and> \<not> allow_late_submission hw1)"
  using addSubmission_one_per_student [where a = hw0 and rs = scenario and sid = 4
      and now = 1765724400000 and save = doc_save and sd = "text_answer ''second''" and s = hw0]
    addSubmission_one_per_student [where a = hw1 and rs = scenario and sid = 4
      and now = 1765724400000 and save = doc_save and sd = "text_answer ''second''" and s = hw1]
  by (simp add: hw1_eq hw0_def scenario_def submit_all_def submit_step_def addSubmission_def
      doc_save_def new_submission_def text_answer_def one_per_student_def count_ok_def Let_def)

section \<open>Properties of the activity logger and of the controllers\<close>

subsection \<open>Activity log failures\<close>

lemma logManualActivity_returns:
  "fst (logManualActivity save userId action opts now w) = Inr ()
   \<and> db (snd (logManualActivity save userId action opts now w)) = db w"
  by (simp add: logManualActivity_def Let_def split: prod.split sum.split)

lemma logActivity_sends:
  "fst (logActivity save action lopts req resp now w) = Inr resp
   \<and> db (snd (logActivity save action lopts req resp now w)) = db w"
  by (simp add: logActivity_def Let_def split: option.split prod.split sum.split)

lemma executeQuery_logs: "logs (snd (executeQuery stmt w)) = logs w"
  by (simp add: executeQuery_def split: prod.split sum.split)

lemma executeQuery_any_logs:
  "fst (executeQuery stmt (w\<lparr>logs := l, console := c\<rparr>)) = fst (executeQuery stmt w)
   \<and> db (snd (executeQuery stmt (w\<lparr>logs := l, console := c\<rparr>))) = db (snd (executeQuery stmt w))"
  by (simp add: executeQuery_def split: prod.split sum.split)

lemma logManualActivity_cases:
  "\<exists>w'. logManualActivity save userId action opts now w = (Inr (), w') \<and> db w' = db w"
proof -
  obtain r w' where p: "logManualActivity save userId action opts now w = (r, w')"
    by (cases "logManualActivity save userId action opts now w")
  then show ?thesis using logManualActivity_returns [of save userId action opts now w] by simp
qed

lemma enrollInCourse_outcome:
  "fst (enrollInCourse save studentId courseId now w) = fst (enroll_outcome studentId courseId now (db w))
   \<and> db (snd (enrollInCourse save studentId courseId now w)) = snd (enroll_outcome studentId courseId now (db w))"
proof (cases "reachable (db w)")
  case False
  then show ?thesis
    by (simp add: enrollInCourse_def enroll_outcome_def executeQuery_def Let_def)
next
  case True
  show ?thesis
  proof (cases "filter (\<lambda>c. c_course_id c = courseId) (courses (db w))")
    case Nil
    then show ?thesis using True
      by (simp add: enrollInCourse_def enroll_outcome_def executeQuery_def select_course_def Let_def)
  next
    case c: (Cons course cs)
    show ?thesis
    proof (cases "filter (\<lambda>e. e_student_id e = studentId \<and> e_course_id e = courseId) (enrollments (db w))")
      case (Cons existing es)
      then show ?thesis using True c
        by (simp add: enrollInCourse_def enroll_outcome_def executeQuery_def select_course_def
            select_enrollment_def Let_def)
    next
      case Nil
      show ?thesis
      proof (cases "insert_enrollment studentId courseId Active now (db w)")
        case (Pair r d')
        show ?thesis
        proof (cases r)
          case (Inl e)
          then show ?thesis using True c Nil Pair
            by (simp add: enrollInCourse_def enroll_outcome_def executeQuery_def select_course_def
                select_enrollment_def Let_def)
        next
          case (Inr insertId)
          obtain w4 where lm: "logManualActivity save studentId ''ENROLL_COURSE''
                                 \<lparr>mo_success = None, mo_course_id = Some courseId,
                                   mo_resource_type = Some ''enrollment'',
                                   mo_resource_id = Some (Num insertId),
                                   mo_error_message = None, mo_metadata = None\<rparr> now (w\<lparr>db := d'\<rparr>)
                     = (Inr (), w4)" and d4: "db w4 = d'"
            using logManualActivity_cases [of save studentId "''ENROLL_COURSE''" _ now "w\<lparr>db := d'\<rparr>"]
            by auto
          show ?thesis using True c Nil Pair Inr lm d4
            by (simp add: enrollInCourse_def enroll_outcome_def executeQuery_def select_course_def
                select_enrollment_def Let_def)
        qed
      qed
    qed
  qed
qed

text \<open>
  Claim C9. Whatever the save of the activity log does, \<open>logManualActivity\<close> returns
  normally and the wrapper installed by \<open>logActivity\<close> sends the response it was given; both
  leave the relational store alone. So what \<open>enrollInCourse\<close> answers, and what it leaves in
  the relational store, is the same for any two behaviours of the log (\<open>save\<close> and \<open>save'\<close>:
  one that stores, one that fails), also behind the route's middleware.
\<close>

theorem activity_log_failure_swallowed:
  "fst (logManualActivity save userId action opts now w) = Inr ()
   \<and> db (snd (logManualActivity save userId action opts now w)) = db w
   \<and> fst (logActivity save action lopts req resp now w) = Inr resp
   \<and> db (snd (logActivity save action lopts req resp now w)) = db w
   \<and> fst (enrollInCourse save studentId courseId now w)
       = fst (enrollInCourse save' studentId courseId now w)
   \<and> db (snd (enrollInCourse save studentId courseId now w))
       = db (snd (enrollInCourse save' studentId courseId now w))
   \<and> fst (enroll_route save rq studentId courseId now w)
       = Inr (fst (enrollInCourse save' studentId courseId now w))"
proof -
  have "fst (enroll_route save rq studentId courseId now w)
          = Inr (fst (enrollInCourse save studentId courseId now w))"
    by (simp add: enroll_route_def logActivity_sends split: prod.split)
  then show ?thesis
    using logManualActivity_returns [of save] logActivity_sends [of save]
      enrollInCourse_outcome [of save studentId courseId now w]
      enrollInCourse_outcome [of save' studentId courseId now w]
    by simp
qed

lemma enroll_with_log_down:
  "fst (enrollInCourse unreachable_save 4 2 77 (world0 sample_db))
     = succeed 201 ''Successfully enrolled in Data Structures and Algorithms''
         \<lparr>en_enrollment_id = 10, en_course_id = 2, en_course_name = ''Data Structures and Algorithms''\<rparr>"
  by code_simp

lemma enroll_route_log_down:
  "logs (snd (enroll_route unreachable_save enroll_request 4 2 77 (world0 sample_db))) = []
   \<and> console (snd (enroll_route unreachable_save enroll_request 4 2 77 (world0 sample_db)))
       = [''Manual activity logging error: connect ECONNREFUSED'',
          ''Activity logging error: connect ECONNREFUSED'']"
  by code_simp

theorem activity_log_failure_swallowed_witness:
  "fst (enrollInCourse unreachable_save 4 2 77 (world0 sample_db))
     = succeed 201 ''Successfully enrolled in Data Structures and Algorithms''
         \<lparr>en_enrollment_id = 10, en_course_id = 2, en_course_name = ''Data Structures and Algorithms''\<rparr>
   \<and> fst (enroll_route unreachable_save enroll_request 4 2 77 (world0 sample_db))
     = Inr (fst (enrollInCourse validating_save 4 2 77 (world0 sample_db)))
   \<and> logs (snd (enroll_route unreachable_save enroll_request 4 2 77 (world0 sample_db))) = []
   \<and> console (snd (enroll_route unreachable_save enroll_request 4 2 77 (world0 sample_db)))
       = [''Manual activity logging error: connect ECONNREFUSED'',
          ''Activity logging error: connect ECONNREFUSED'']"
proof -
  have "fst (enroll_route unreachable_save enroll_request 4 2 77 (world0 sample_db))
     = Inr (fst (enrollInCourse validating_save 4 2 77 (world0 sample_db)))"
    using activity_log_failure_swallowed [where save = unreachable_save and save' = validating_save
      and rq = enroll_request and studentId = 4 and courseId = 2 and now = 77
      and w = "world0 sample_db"]
    by blast
  then show ?thesis using enroll_with_log_down enroll_route_log_down by simp
qed

subsection \<open>Enrollment\<close>

text \<open>
  Claim C10. When the relational store can be reached and respects the foreign key of
  \<open>enrollments.course_id\<close>, a row of \<open>enrollments\<close> for the student and the course, whatever
  its status, makes \<open>enrollInCourse\<close> answer 409 with the message
  \<open>Already <status> in this course\<close> (the status of a row of that pair), and nothing is
  inserted, logged or written to the console: a dropped or completed enrollment cannot be
  renewed this way.
\<close>

theorem enrollInCourse_conflict:
  assumes up: "reachable (db w)" and fk: "fk_enrollment_course (db w)"
    and e: "e \<in> set (enrollments (db w))" "e_student_id e = studentId" "e_course_id e = courseId"
  shows "\<exists>e0\<in>set (enrollments (db w)). e_student_id e0 = studentId \<and> e_course_id e0 = courseId
           \<and> enrollInCourse save studentId courseId now w
               = (failure 409 (''Already '' @ status_text (e_status e0) @ '' in this course''), w)"
proof -
  let ?P = "\<lambda>x. e_student_id x = studentId \<and> e_course_id x = courseId"
  have "courseId \<in> set (map c_course_id (courses (db w)))"
    using fk e unfolding fk_enrollment_course_def by auto
  then have "filter (\<lambda>c. c_course_id c = courseId) (courses (db w)) \<noteq> []"
    by (auto simp: filter_empty_conv)
  then obtain course cs where c: "filter (\<lambda>c. c_course_id c = courseId) (courses (db w)) = course # cs"
    by (cases "filter (\<lambda>c. c_course_id c = courseId) (courses (db w))") auto
  have "filter ?P (enrollments (db w)) \<noteq> []"
    using e by (auto simp: filter_empty_conv)
  then obtain e0 es where x: "filter ?P (enrollments (db w)) = e0 # es"
    by (cases "filter ?P (enrollments (db w))") auto
  then have "e0 \<in> set (filter ?P (enrollments (db w)))" by simp
  then have e0: "e0 \<in> set (enrollments (db w))" "?P e0" by simp_all
  have "enrollInCourse save studentId courseId now w
          = (failure 409 (''Already '' @ status_text (e_status e0) @ '' in this course''), w)"
    using up c x
    by (simp add: enrollInCourse_def executeQuery_def select_course_def select_enrollment_def Let_def)
  then show ?thesis using e0 by blast
qed

theorem enrollInCourse_conflict_witness:
  "reachable (db (world0 dropped_db)) \<and> fk_enrollment_course (db (world0 dropped_db))
   \<and> enrolled 1 4 1 Dropped \<in> set (enrollments (db (world0 dropped_db)))
   \<and> e_status (enrolled 1 4 1 Dropped) = Dropped
   \<and> enrollInCourse validating_save 4 1 77 (world0 dropped_db)
       = (failure 409 ''Already dropped in this course'', world0 dropped_db)"
  using enrollInCourse_conflict [where w = "world0 dropped_db" and e = "enrolled 1 4 1 Dropped"
      and studentId = 4 and courseId = 1 and save = validating_save and now = 77]
  by (simp add: world0_def dropped_db_def sample_db_def sample_enrollments_def sample_courses_def
      sample_users_def enrolled_def fk_enrollment_course_def enrollInCourse_def executeQuery_def
      select_course_def select_enrollment_def Let_def)

subsection \<open>Platform statistics\<close>

text \<open>
  Claim C8, as stated, fails: with every read of the relational store answered and the
  document store down, the handler answers 500 without any data, the relational counts
  included; likewise with the document store answering and the relational store down. This
  holds with a \<open>query\<close> function at hand and with the module as it is exported.
\<close>

theorem getPlatformStats_partial_counterexample:
  "userStats env_mongodb_down = Inr [(''admin'', 1), (''instructor'', 2), (''student'', 4)]
   \<and> courseStats env_mongodb_down = Inr [4] \<and> enrollmentStats env_mongodb_down = Inr [9]
   \<and> quizStats env_mongodb_down = Inr [5] \<and> submissionStats env_mongodb_down = Inr [8]
   \<and> getPlatformStats True env_mongodb_down
       = failure500 ''Failed to retrieve platform statistics'' (StoreError ''connect ECONNREFUSED'')
   \<and> totalActivities env_mysql_down = Inr 12 \<and> totalDiscussions env_mysql_down = Inr 3
   \<and> totalAssignments env_mysql_down = Inr 2
   \<and> getPlatformStats True env_mysql_down
       = failure500 ''Failed to retrieve platform statistics'' (StoreError ''connect ECONNREFUSED'')
   \<and> res_data (getPlatformStats mysql_module_has_query env_mongodb_down) = None
   \<and> res_data (getPlatformStats mysql_module_has_query env_mysql_down) = None
   \<and> res_data (failure500 ''Failed to retrieve platform statistics''
         (StoreError ''connect ECONNREFUSED'') :: platform_stats response) = None"
  by (simp add: env_mongodb_down_def env_mysql_down_def env_up_def getPlatformStats_def
      platform_report_def and_then_def first_row_def failure500_def mysql_module_has_query_def)

text \<open>
  Claim C8, amended. The report is all or nothing: when any of the nine reads of either
  store fails, the handler answers 500, \<open>success = false\<close>, without data; a response that
  carries data has status 200 and both halves.
\<close>

theorem getPlatformStats_all_or_nothing:
  "((isl (userStats env) \<or> isl (courseStats env) \<or> isl (enrollmentStats env)
       \<or> isl (quizStats env) \<or> isl (submissionStats env) \<or> isl (totalActivities env)
       \<or> isl (totalDiscussions env) \<or> isl (totalAssignments env) \<or> isl (activityTrend env))
      \<longrightarrow> http_status (getPlatformStats has_query env) = 500
          \<and> \<not> success (getPlatformStats has_query env)
          \<and> res_data (getPlatformStats has_query env) = None)
   \<and> (res_data (getPlatformStats has_query env) \<noteq> None
      \<longrightarrow> http_status (getPlatformStats has_query env) = 200
          \<and> (\<exists>m g. res_data (getPlatformStats has_query env)
                      = Some \<lparr>mysql_half = Some m, mongodb_half = Some g\<rparr>))"
  by (auto simp add: getPlatformStats_def platform_report_def and_then_def first_row_def
      failure500_def succeed_def split: sum.splits list.splits)

theorem getPlatformStats_all_or_nothing_witness:
  "isl (totalActivities env_mongodb_down)
   \<and> http_status (getPlatformStats True env_mongodb_down) = 500
   \<and> res_data (getPlatformStats True env_mongodb_down) = None
   \<and> res_data (getPlatformStats True env_up) \<noteq> None
   \<and> http_status (getPlatformStats True env_up) = 200"
  using getPlatformStats_all_or_nothing [where env = env_mongodb_down and has_query = True]
    getPlatformStats_all_or_nothing [where env = env_up and has_query = True]
  by (simp add: env_mongodb_down_def env_up_def getPlatformStats_def platform_report_def
      and_then_def first_row_def failure500_def succeed_def)

subsection \<open>Creating documents for a course that does not exist\<close>

lemma parseInt_999: "parseInt ''999'' = Some 999"
  by (simp add: parseInt_def digit_def Let_def)

text \<open>
  Claim C1, evaluated on the code. Course 999 is not in the relational store. A well-formed
  request to create a discussion, or to submit an assignment, for course 999 is answered
  with 500 and the TypeError's message, not with 404: the controller never looks the course
  up, and the static method it calls is not defined by the model. No document is stored.
\<close>

theorem create_for_missing_course:
  "fst (select_course 999 sample_db) = Inr []
   \<and> parseInt ''999'' = Some 999
   \<and> createDiscussion Discussion_createDiscussion discussion_request_999 ([] :: discussion list)
       = (failure500 ''Failed to create discussion''
            (TypeError ''Discussion.createDiscussion is not a function''), [])
   \<and> submitAssignment Assignment_submitAssignment assignment_request_999 ([] :: assignment list)
       = (failure500 ''Failed to submit assignment''
            (TypeError ''Assignment.submitAssignment is not a function''), [])
   \<and> http_status (failure500 ''Failed to create discussion''
        (TypeError ''Discussion.createDiscussion is not a function'') :: discussion response) = 500"
  by (simp add: parseInt_999 select_course_def sample_db_def sample_courses_def
      createDiscussion_def Discussion_createDiscussion_def discussion_request_999_def
      submitAssignment_def Assignment_submitAssignment_def assignment_request_999_def
      truthy_def failure500_def)

section \<open>Properties of concurrent mutations\<close>










text \<open>One submission against the store, by the three ways it can go.\<close>

lemma mongoose_late:
  "due_date a0 < now \<Longrightarrow> \<not> allow_late_submission a0 \<Longrightarrow>
     addSubmission (mongoose_save_assignment a0 v) a0 sid sd now st = (Inl LateSubmissionRejected, st)"
  by (rule addSubmission_rejected)
















section \<open>Properties of the course summaries\<close>

lemma set_left_join: "set (left_join xs) = (if xs = [] then {None} else Some ` set xs)"
  by (simp add: left_join_def)

lemma non_null_empty: "non_null vs = [] \<longleftrightarrow> (\<forall>v\<in>set vs. v = None)"
  by (induction vs rule: non_null.induct) simp_all

lemma sql_avg_None: "sql_avg vs = None \<longleftrightarrow> (\<forall>v\<in>set vs. v = None)"
proof -
  have "sql_avg vs = None \<longleftrightarrow> non_null vs = []"
    by (cases "non_null vs") (simp_all add: sql_avg_def)
  then show ?thesis by (simp only: non_null_empty)
qed

lemma count_distinct_0: "count_distinct vs = 0 \<longleftrightarrow> (\<forall>v\<in>set vs. v = None)"
proof -
  have "count_distinct vs = 0 \<longleftrightarrow> non_null vs = []"
    unfolding count_distinct_def by (metis length_0_conv remdups_eq_nil_iff)
  then show ?thesis by (simp only: non_null_empty)
qed

lemma round_dec_two: "round_dec 2 x * 100 \<in> \<int>"
proof -
  have "round_dec 2 x * 100 = (if x < 0 then - 1 else 1) * of_int \<lfloor>\<bar>x\<bar> * 10 ^ 2 + 1 / 2\<rfloor>"
    by (simp add: round_dec_def)
  then show ?thesis by simp
qed

lemma two_decimals_round: "two_decimals (sql_round v 2)"
  by (cases v) (simp_all add: two_decimals_def sql_round_def round_dec_two)

lemma sql_round_None: "sql_round v n = None \<longleftrightarrow> v = None"
  by (simp add: sql_round_def)

lemma percentage_None: "qs = None \<or> q = None \<Longrightarrow> percentage qs q = None"
  by (auto simp: percentage_def sql_div_def split: option.splits)

lemma summary_from_row:
  assumes "(u, e, c, i, q, qs) \<in> set (summary_from d)"
  shows "q \<in> set (left_join (filter (\<lambda>q. c_course_id c = q_course_id q) (quizzes d)))"
    and "qs \<in> set (left_join (case q of None \<Rightarrow> []
                 | Some q' \<Rightarrow> filter (\<lambda>s. q_quiz_id q' = qs_quiz_id s \<and> qs_student_id s = u_user_id u)
                                (quiz_submissions d)))"
  using assms by (auto simp: summary_from_def)

lemma summary_row_quiz:
  assumes "(u, e, c, i, Some q', qs) \<in> set (summary_from d)"
  shows "q' \<in> set (quizzes_of_course d (c_course_id c))"
  using summary_from_row(1) [OF assms]
  by (auto simp: set_left_join quizzes_of_course_def split: if_splits)

lemma summary_row_submission:
  assumes "(u, e, c, i, q, Some s) \<in> set (summary_from d)"
  shows "s \<in> set (submissions_in_course d (u_user_id u) (c_course_id c))"
proof (cases q)
  case None
  then show ?thesis using summary_from_row(2) [OF assms] by (simp add: set_left_join)
next
  case (Some q')
  then have "q' \<in> set (quizzes_of_course d (c_course_id c))"
    using assms summary_row_quiz by blast
  moreover have "s \<in> set (quiz_submissions d) \<and> q_quiz_id q' = qs_quiz_id s
                   \<and> qs_student_id s = u_user_id u"
    using summary_from_row(2) [OF assms] Some by (auto simp: set_left_join split: if_splits)
  ultimately show ?thesis
    by (auto simp: submissions_in_course_def intro: rev_image_eqI [where x = q'])
qed

lemma summarize_fields:
  "sr_student_id (summarize k rows) = fst k"
  "sr_course_id (summarize k rows) = fst (snd (snd (snd k)))"
  "total_quizzes (summarize k rows)
     = count_distinct (map (\<lambda>(u, e, c, i, q, qs). map_option q_quiz_id q) rows)"
  "avg_percentage (summarize k rows)
     = sql_round (sql_avg (map (\<lambda>(u, e, c, i, q, qs). percentage qs q) rows)) 2"
  by (cases "(k, rows)" rule: summarize.cases; simp)+

lemma summary_key_fields:
  "fst (summary_key (u, e, c, i, q, qs)) = u_user_id u"
  "fst (snd (snd (snd (summary_key (u, e, c, i, q, qs))))) = c_course_id c"
  by simp_all

lemma view_row:
  assumes "r \<in> set (student_course_summary d)"
  obtains k where "r = summarize k (filter (\<lambda>x. summary_key x = k) (summary_from d))"
  using assms by (auto simp: student_course_summary_def Let_def)

lemma view_avg_null_no_submission:
  assumes r: "r \<in> set (student_course_summary d)"
    and none: "submissions_in_course d (sr_student_id r) (sr_course_id r) = []"
  shows "avg_percentage r = None"
proof -
  from r obtain k where k: "r = summarize k (filter (\<lambda>x. summary_key x = k) (summary_from d))"
    by (rule view_row)
  have "\<forall>x\<in>set (filter (\<lambda>x. summary_key x = k) (summary_from d)).
          (\<lambda>(u, e, c, i, q, qs). percentage qs q) x = None"
  proof
    fix x assume x: "x \<in> set (filter (\<lambda>x. summary_key x = k) (summary_from d))"
    obtain u e c i q qs where t: "x = (u, e, c, i, q, qs)" by (cases x rule: summary_key.cases)
    have key: "u_user_id u = sr_student_id r" "c_course_id c = sr_course_id r"
      using x t k by (auto simp: summarize_fields simp del: summary_key.simps
          simp add: summary_key_fields [symmetric])
    have "qs = None"
    proof (cases qs)
      case (Some s)
      then have "s \<in> set (submissions_in_course d (u_user_id u) (c_course_id c))"
        using x t summary_row_submission by auto
      then show ?thesis using none key by simp
    qed simp
    then show "(\<lambda>(u, e, c, i, q, qs). percentage qs q) x = None"
      using t by (simp add: percentage_None)
  qed
  then show ?thesis
    unfolding k summarize_fields sql_round_None sql_avg_None by simp
qed

lemma view_no_quizzes:
  assumes r: "r \<in> set (student_course_summary d)"
    and none: "quizzes_of_course d (sr_course_id r) = []"
  shows "total_quizzes r = 0 \<and> avg_percentage r = None"
proof -
  from r obtain k where k: "r = summarize k (filter (\<lambda>x. summary_key x = k) (summary_from d))"
    by (rule view_row)
  have q: "\<forall>x\<in>set (filter (\<lambda>x. summary_key x = k) (summary_from d)).
          (\<lambda>(u, e, c, i, q, qs). q) x = None"
  proof
    fix x assume x: "x \<in> set (filter (\<lambda>x. summary_key x = k) (summary_from d))"
    obtain u e c i q qs where t: "x = (u, e, c, i, q, qs)" by (cases x rule: summary_key.cases)
    have key: "c_course_id c = sr_course_id r"
      using x t k by (auto simp: summarize_fields simp del: summary_key.simps
          simp add: summary_key_fields [symmetric])
    have "q = None"
    proof (cases q)
      case (Some q')
      then have "q' \<in> set (quizzes_of_course d (c_course_id c))"
        using x t summary_row_quiz by auto
      then show ?thesis using none key by simp
    qed simp
    then show "(\<lambda>(u, e, c, i, q, qs). q) x = None" using t by simp
  qed
  have "total_quizzes r = 0"
    unfolding k summarize_fields count_distinct_0 using q by auto
  moreover have "\<forall>x\<in>set (filter (\<lambda>x. summary_key x = k) (summary_from d)).
          (\<lambda>(u, e, c, i, q, qs). percentage qs q) x = None"
  proof
    fix x assume x: "x \<in> set (filter (\<lambda>x. summary_key x = k) (summary_from d))"
    obtain u e c i q' qs where t: "x = (u, e, c, i, q', qs)" by (cases x rule: summary_key.cases)
    from q x have "(\<lambda>(u, e, c, i, q, qs). q) x = None" by blast
    then have "q' = None" using t by simp
    then show "(\<lambda>(u, e, c, i, q, qs). percentage qs q) x = None"
      using t by (simp add: percentage_None)
  qed
  then have "avg_percentage r = None"
    unfolding k summarize_fields sql_round_None sql_avg_None by simp
  ultimately show ?thesis by simp
qed

lemma view_two_decimals:
  assumes r: "r \<in> set (student_course_summary d)"
  shows "two_decimals (avg_percentage r)"
proof -
  from r obtain k where k: "r = summarize k (filter (\<lambda>x. summary_key x = k) (summary_from d))"
    by (rule view_row)
  show ?thesis unfolding k summarize_fields by (rule two_decimals_round)
qed

lemma students_from_row:
  assumes "(e, u, qs, q) \<in> set (students_from d courseId)"
  shows "e_course_id e = courseId"
    and "qs \<in> set (left_join (filter (\<lambda>s. u_user_id u = qs_student_id s) (quiz_submissions d)))"
    and "q \<in> set (left_join (case qs of None \<Rightarrow> []
                 | Some s \<Rightarrow> filter (\<lambda>q. qs_quiz_id s = q_quiz_id q \<and> q_course_id q = e_course_id e)
                               (quizzes d)))"
  using assms by (auto simp: students_from_def split: if_splits)

lemma students_row_graded:
  assumes "(e, u, Some s, Some q') \<in> set (students_from d courseId)"
  shows "q' \<in> set (quizzes_of_course d courseId)"
    and "s \<in> set (submissions_in_course d (u_user_id u) courseId)"
proof -
  have c: "e_course_id e = courseId" using students_from_row(1) [OF assms] .
  have s: "s \<in> set (quiz_submissions d)" "u_user_id u = qs_student_id s"
    using students_from_row(2) [OF assms] by (auto simp: set_left_join split: if_splits)
  have q: "q' \<in> set (quizzes d)" "qs_quiz_id s = q_quiz_id q'" "q_course_id q' = courseId"
    using students_from_row(3) [OF assms] c by (auto simp: set_left_join split: if_splits)
  show q': "q' \<in> set (quizzes_of_course d courseId)"
    using q by (simp add: quizzes_of_course_def)
  show "s \<in> set (submissions_in_course d (u_user_id u) courseId)"
    using s q q' by (auto simp: submissions_in_course_def intro: rev_image_eqI [where x = q'])
qed

lemma student_of_group_fields:
  "st_user_id (student_of_group k rows) = fst k"
  "st_avg_percentage (student_of_group k rows)
     = sql_round (sql_avg (map (\<lambda>(e, u, qs, q). percentage qs q) rows)) 2"
  by (cases "(k, rows)" rule: student_of_group.cases; simp)+

lemma students_key_fields: "fst (students_key (e, u, qs, q)) = u_user_id u"
  by simp

lemma students_row:
  assumes "r \<in> set (course_students d courseId)"
  obtains k where "r = student_of_group k (filter (\<lambda>x. students_key x = k) (students_from d courseId))"
  using assms by (auto simp: course_students_def Let_def)

lemma students_avg_null:
  assumes r: "r \<in> set (course_students d courseId)"
    and none: "submissions_in_course d (st_user_id r) courseId = [] \<or> quizzes_of_course d courseId = []"
  shows "st_avg_percentage r = None"
proof -
  from r obtain k where
    k: "r = student_of_group k (filter (\<lambda>x. students_key x = k) (students_from d courseId))"
    by (rule students_row)
  have "\<forall>x\<in>set (filter (\<lambda>x. students_key x = k) (students_from d courseId)).
          (\<lambda>(e, u, qs, q). percentage qs q) x = None"
  proof
    fix x assume x: "x \<in> set (filter (\<lambda>x. students_key x = k) (students_from d courseId))"
    obtain e u qs q where t: "x = (e, u, qs, q)" by (cases x rule: students_key.cases)
    have key: "u_user_id u = st_user_id r"
      using x t k by (auto simp: student_of_group_fields simp del: students_key.simps
          simp add: students_key_fields [symmetric])
    have "qs = None \<or> q = None"
    proof (rule ccontr)
      assume "\<not> (qs = None \<or> q = None)"
      then obtain s q' where sq: "qs = Some s" "q = Some q'" by auto
      then have m: "(e, u, Some s, Some q') \<in> set (students_from d courseId)" using x t by simp
      show False using students_row_graded [OF m] none key by auto
    qed
    then show "(\<lambda>(e, u, qs, q). percentage qs q) x = None"
      using t by (simp add: percentage_None)
  qed
  then show ?thesis
    unfolding k student_of_group_fields sql_round_None sql_avg_None by simp
qed

lemma students_two_decimals:
  assumes r: "r \<in> set (course_students d courseId)"
  shows "two_decimals (st_avg_percentage r)"
proof -
  from r obtain k where
    k: "r = student_of_group k (filter (\<lambda>x. students_key x = k) (students_from d courseId))"
    by (rule students_row)
  show ?thesis unfolding k student_of_group_fields by (rule two_decimals_round)
qed

lemma left_join_nonempty: "\<exists>x. x \<in> set (left_join xs)"
  by (cases xs) (auto simp: left_join_def)

lemma view_has_row:
  assumes "e \<in> set (enrollments d)" "u \<in> set (users d)" "u_user_id u = e_student_id e"
    "u_role u = Student" "c \<in> set (courses d)" "e_course_id e = c_course_id c"
    "i \<in> set (users d)" "c_instructor_id c = u_user_id i"
  shows "\<exists>r\<in>set (student_course_summary d).
           sr_student_id r = e_student_id e \<and> sr_course_id r = e_course_id e"
proof -
  obtain q where q: "q \<in> set (left_join (filter (\<lambda>q. c_course_id c = q_course_id q) (quizzes d)))"
    using left_join_nonempty by blast
  obtain qs where qs: "qs \<in> set (left_join (case q of None \<Rightarrow> []
                 | Some q' \<Rightarrow> filter (\<lambda>s. q_quiz_id q' = qs_quiz_id s \<and> qs_student_id s = u_user_id u)
                                (quiz_submissions d)))"
    using left_join_nonempty by blast
  have m: "(u, e, c, i, q, qs) \<in> set (summary_from d)"
    using assms q qs by (auto simp: summary_from_def)
  let ?k = "summary_key (u, e, c, i, q, qs)"
  let ?r = "summarize ?k (filter (\<lambda>x. summary_key x = ?k) (summary_from d))"
  have "?k \<in> summary_key ` set (summary_from d)" using m by (rule imageI)
  then have "?k \<in> set (map summary_key (summary_from d))" by (simp only: set_map)
  then have "?k \<in> set (remdups (map summary_key (summary_from d)))"
    by (simp only: set_remdups)
  then have "?r \<in> (\<lambda>k. summarize k (filter (\<lambda>x. summary_key x = k) (summary_from d)))
                  ` set (remdups (map summary_key (summary_from d)))"
    by (rule imageI)
  then have "?r \<in> set (student_course_summary d)"
    by (simp only: student_course_summary_def Let_def set_map)
  moreover have "sr_student_id ?r = e_student_id e \<and> sr_course_id ?r = e_course_id e"
    using assms by (simp add: summarize_fields)
  ultimately show ?thesis by blast
qed

text \<open>
  Claim C7. In a row of the view \<open>student_course_summary\<close>, \<open>avg_percentage\<close> is \<open>NULL\<close> when
  the student has no submission for a quiz of the course; for a course without quizzes
  \<open>total_quizzes\<close> is 0 and \<open>avg_percentage\<close> is \<open>NULL\<close>; an \<open>avg_percentage\<close> that is not \<open>NULL\<close>
  has two decimal places. The same holds for \<open>avg_percentage\<close> in the rows of
  \<open>getCourseStudents\<close>. Every enrollment of a student in a course that has an instructor has
  a row in the view.
\<close>

theorem course_summary_nulls:
  "(r \<in> set (student_course_summary d) \<longrightarrow>
      (submissions_in_course d (sr_student_id r) (sr_course_id r) = [] \<longrightarrow> avg_percentage r = None)
      \<and> (quizzes_of_course d (sr_course_id r) = [] \<longrightarrow> total_quizzes r = 0 \<and> avg_percentage r = None)
      \<and> two_decimals (avg_percentage r))
   \<and> (r' \<in> set (course_students d courseId) \<longrightarrow>
      (submissions_in_course d (st_user_id r') courseId = [] \<longrightarrow> st_avg_percentage r' = None)
      \<and> (quizzes_of_course d courseId = [] \<longrightarrow> st_avg_percentage r' = None)
      \<and> two_decimals (st_avg_percentage r'))
   \<and> (e \<in> set (enrollments d) \<and> u \<in> set (users d) \<and> u_user_id u = e_student_id e
        \<and> u_role u = Student \<and> c \<in> set (courses d) \<and> e_course_id e = c_course_id c
        \<and> i \<in> set (users d) \<and> c_instructor_id c = u_user_id i \<longrightarrow>
      (\<exists>x\<in>set (student_course_summary d).
          sr_student_id x = e_student_id e \<and> sr_course_id x = e_course_id e))"
  using view_avg_null_no_submission [of r d] view_no_quizzes [of r d] view_two_decimals [of r d]
    students_avg_null [of r' d courseId] students_two_decimals [of r' d courseId]
    view_has_row [of e d u c i]
  by blast

lemma carol_view: "student_course_summary carol_db = [carol_cs201, carol_cs401, carol_cs101]"
  by code_simp

lemma carol_students: "course_students carol_db 1 = [carol_student]"
  by code_simp

lemma carol_no_work:
  "quizzes_of_course carol_db 4 = [] \<and> submissions_in_course carol_db 6 1 = []
   \<and> length (quizzes_of_course carol_db 1) = 2"
  by code_simp

lemma carol_rows:
  "total_quizzes carol_cs401 = 0 \<and> avg_percentage carol_cs401 = None
   \<and> total_quizzes carol_cs101 = 2 \<and> avg_percentage carol_cs101 = None
   \<and> avg_percentage carol_cs201 = Some (9467 / 100)
   \<and> sr_student_id carol_cs401 = 6 \<and> sr_course_id carol_cs401 = 4
   \<and> sr_student_id carol_cs101 = 6 \<and> sr_course_id carol_cs101 = 1
   \<and> st_user_id carol_student = 6 \<and> st_avg_percentage carol_student = None"
  by (simp add: carol_cs401_def carol_cs101_def carol_cs201_def carol_summary_def carol_student_def)

lemma carol_enrolled:
  "enrolled 7 6 4 Active \<in> set (enrollments carol_db) \<and> sample_users ! 5 \<in> set (users carol_db)
   \<and> u_user_id (sample_users ! 5) = e_student_id (enrolled 7 6 4 Active)
   \<and> u_role (sample_users ! 5) = Student \<and> sample_courses ! 3 \<in> set (courses carol_db)
   \<and> e_course_id (enrolled 7 6 4 Active) = c_course_id (sample_courses ! 3)
   \<and> sample_users ! 2 \<in> set (users carol_db)
   \<and> c_instructor_id (sample_courses ! 3) = u_user_id (sample_users ! 2)"
  by (simp add: carol_db_def sample_users_def sample_courses_def enrolled_def)

theorem course_summary_nulls_witness:
  "carol_cs401 \<in> set (student_course_summary carol_db)
   \<and> quizzes_of_course carol_db (sr_course_id carol_cs401) = []
   \<and> total_quizzes carol_cs401 = 0 \<and> avg_percentage carol_cs401 = None
   \<and> carol_cs101 \<in> set (student_course_summary carol_db)
   \<and> submissions_in_course carol_db (sr_student_id carol_cs101) (sr_course_id carol_cs101) = []
   \<and> total_quizzes carol_cs101 = 2 \<and> avg_percentage carol_cs101 = None
   \<and> carol_cs201 \<in> set (student_course_summary carol_db)
   \<and> avg_percentage carol_cs201 = Some (9467 / 100)
   \<and> two_decimals (avg_percentage carol_cs201)
   \<and> carol_student \<in> set (course_students carol_db 1)
   \<and> submissions_in_course carol_db (st_user_id carol_student) 1 = []
   \<and> st_avg_percentage carol_student = None
   \<and> enrolled 7 6 4 Active \<in> set (enrollments carol_db)
   \<and> sample_users ! 5 \<in> set (users carol_db)
   \<and> u_role (sample_users ! 5) = Student"
  using course_summary_nulls [where r = carol_cs401 and d = carol_db and r' = carol_student
      and courseId = 1 and e = "enrolled 7 6 4 Active" and u = "sample_users ! 5"
      and c = "sample_courses ! 3" and i = "sample_users ! 2"]
    course_summary_nulls [where r = carol_cs101 and d = carol_db and r' = carol_student
      and courseId = 1 and e = "enrolled 7 6 4 Active" and u = "sample_users ! 5"
      and c = "sample_courses ! 3" and i = "sample_users ! 2"]
    course_summary_nulls [where r = carol_cs201 and d = carol_db and r' = carol_student
      and courseId = 1 and e = "enrolled 7 6 4 Active" and u = "sample_users ! 5"
      and c = "sample_courses ! 3" and i = "sample_users ! 2"]
    carol_view carol_students carol_no_work carol_rows carol_enrolled
  by simp

end
